theory Spec2Isabelle
  imports Main "HOL-Library.Char_ord" "HOL-Library.List_Lexorder" "HOL-Library.Product_Lexorder"
    "HOL-Library.Multiset"
begin

section \<open>Layer names\<close>

text \<open>
  The four upload handlers of \<^verbatim>\<open>backend/main.py\<close> take their form fields as required
  strings and build the name of the published layer with an f-string:
  \<^verbatim>\<open>f"{country}_{variable}_{scenario}"\<close> (climate),
  \<^verbatim>\<open>f"{country}_{variable}_{scenario}_giri"\<close> (giri),
  \<^verbatim>\<open>f"{country}_{infrastructure_type}_energy"\<close> (energy) and
  \<^verbatim>\<open>f"{country}_boundary"\<close> (boundary). The read path \<^verbatim>\<open>get_country_layers\<close>
  rebuilds the names with the same four f-strings. The fields are used as they arrive:
  no handler changes case or replaces characters.

  A layer identity is one constructor per handler, holding the fields that handler
  receives; \<open>identity_tuple\<close> gives the (country, kind, variable, scenario) view, where
  the infrastructure type of an energy layer sits in the variable position.
\<close>

datatype DatasetKind = climate | giri | energy | boundary

datatype LayerIdentity =
    Climate string string string
  | Giri string string string
  | Energy string string
  | Boundary string

fun identity_tuple :: "LayerIdentity \<Rightarrow> string \<times> DatasetKind \<times> string option \<times> string option" where
  "identity_tuple (Climate c v s) = (c, climate, Some v, Some s)"
| "identity_tuple (Giri c v s) = (c, giri, Some v, Some s)"
| "identity_tuple (Energy c t) = (c, energy, Some t, None)"
| "identity_tuple (Boundary c) = (c, boundary, None, None)"

fun country_of :: "LayerIdentity \<Rightarrow> string" where
  "country_of (Climate c v s) = c"
| "country_of (Giri c v s) = c"
| "country_of (Energy c t) = c"
| "country_of (Boundary c) = c"

fun identity_fields :: "LayerIdentity \<Rightarrow> string list" where
  "identity_fields (Climate c v s) = [c, v, s]"
| "identity_fields (Giri c v s) = [c, v, s]"
| "identity_fields (Energy c t) = [c, t]"
| "identity_fields (Boundary c) = [c]"

definition climate_layer_name :: "string \<Rightarrow> string \<Rightarrow> string \<Rightarrow> string" where
  "climate_layer_name country variable scenario = country @ ''_'' @ variable @ ''_'' @ scenario"

definition giri_layer_name :: "string \<Rightarrow> string \<Rightarrow> string \<Rightarrow> string" where
  "giri_layer_name country variable scenario =
     country @ ''_'' @ variable @ ''_'' @ scenario @ ''_giri''"

definition energy_layer_name :: "string \<Rightarrow> string \<Rightarrow> string" where
  "energy_layer_name country infrastructure_type =
     country @ ''_'' @ infrastructure_type @ ''_energy''"

definition boundary_layer_name :: "string \<Rightarrow> string" where
  "boundary_layer_name country = country @ ''_boundary''"

fun encode :: "LayerIdentity \<Rightarrow> string" where
  "encode (Climate c v s) = climate_layer_name c v s"
| "encode (Giri c v s) = giri_layer_name c v s"
| "encode (Energy c t) = energy_layer_name c t"
| "encode (Boundary c) = boundary_layer_name c"

text \<open>
  The characters the specification allows in an external identifier: lowercase letters,
  digits and the underscore.
\<close>

definition legal_char :: "char \<Rightarrow> bool" where
  "legal_char ch \<longleftrightarrow>
     (CHR ''a'' \<le> ch \<and> ch \<le> CHR ''z'') \<or> (CHR ''0'' \<le> ch \<and> ch \<le> CHR ''9'') \<or> ch = CHR ''_''"

definition legal_name :: "string \<Rightarrow> bool" where
  "legal_name s = list_all legal_char s"

definition underscore_free :: "string \<Rightarrow> bool" where
  "underscore_free s = list_all (\<lambda>ch. ch \<noteq> CHR ''_'') s"

text \<open>
  An identity is plain when none of its fields holds the separator and, for a climate
  identity, the scenario is not the word that ends every energy name.
\<close>

fun plain :: "LayerIdentity \<Rightarrow> bool" where
  "plain (Climate c v s) =
     (underscore_free c \<and> underscore_free v \<and> underscore_free s \<and> s \<noteq> ''energy'')"
| "plain (Giri c v s) = (underscore_free c \<and> underscore_free v \<and> underscore_free s)"
| "plain (Energy c t) = (underscore_free c \<and> underscore_free t)"
| "plain (Boundary c) = underscore_free c"

section \<open>Request routing\<close>

text \<open>
  \<^verbatim>\<open>backend/main.py\<close> registers its handlers with decorators, in the order of the
  file. The framework keeps the routes in that order and compiles each path to a
  pattern: a literal segment matches itself, \<^verbatim>\<open>{name}\<close> matches one non-empty segment
  without a slash, \<^verbatim>\<open>{name:path}\<close> matches the whole rest of the path. A request goes
  to the first route whose pattern and method both match; when only patterns match, the
  answer is "method not allowed"; when no pattern matches, no handler runs.
\<close>

datatype http_method = GET | POST | PUT | DELETE | PATCH | HEAD | OPTIONS

datatype endpoint =
    ep_root | ep_test_endpoint | ep_health_check
  | ep_upload_climate_data | ep_upload_giri_data | ep_upload_energy_data | ep_upload_boundary_data
  | ep_get_country_layers | ep_proxy_geoserver
  | ep_cleanup_country_layers | ep_cleanup_all_layers | ep_list_all_layers

datatype segment = Lit string | Param string | PathParam string

fun split_on :: "char \<Rightarrow> string \<Rightarrow> string list" where
  "split_on d [] = [[]]"
| "split_on d (x # xs) =
     (if x = d then [] # split_on d xs
      else (case split_on d xs of [] \<Rightarrow> [[x]] | w # ws \<Rightarrow> (x # w) # ws))"

fun strip_suffix :: "string \<Rightarrow> string \<Rightarrow> string option" where
  "strip_suffix suf s =
     (if length suf \<le> length s \<and> drop (length s - length suf) s = suf
      then Some (take (length s - length suf) s) else None)"

fun parse_segment :: "string \<Rightarrow> segment" where
  "parse_segment [] = Lit []"
| "parse_segment (x # xs) =
     (if x = CHR ''{'' \<and> xs \<noteq> [] \<and> last xs = CHR ''}'' then
        (case strip_suffix '':path'' (butlast xs) of
           Some n \<Rightarrow> PathParam n
         | None \<Rightarrow> Param (butlast xs))
      else Lit (x # xs))"

definition compile_path :: "string \<Rightarrow> segment list" where
  "compile_path p = map parse_segment (split_on CHR ''/'' p)"

fun join_path :: "string list \<Rightarrow> string" where
  "join_path [] = []"
| "join_path [x] = x"
| "join_path (x # y # ys) = x @ CHR ''/'' # join_path (y # ys)"

fun match_segments :: "segment list \<Rightarrow> string list \<Rightarrow> (string \<times> string) list option" where
  "match_segments [] [] = Some []"
| "match_segments [] (x # xs) = None"
| "match_segments (PathParam n # ps) xs =
     (if ps = [] \<and> xs \<noteq> [] then Some [(n, join_path xs)] else None)"
| "match_segments (p # ps) [] = None"
| "match_segments (Lit s # ps) (x # xs) = (if x = s then match_segments ps xs else None)"
| "match_segments (Param n # ps) (x # xs) =
     (if x \<noteq> [] then map_option ((#) (n, x)) (match_segments ps xs) else None)"

type_synonym route = "http_method \<times> string \<times> endpoint"

definition routes :: "route list" where
  "routes =
    [(GET, ''/'', ep_root),
     (GET, ''/api/test'', ep_test_endpoint),
     (GET, ''/api/health'', ep_health_check),
     (POST, ''/api/upload/climate'', ep_upload_climate_data),
     (POST, ''/api/upload/giri'', ep_upload_giri_data),
     (POST, ''/api/upload/energy'', ep_upload_energy_data),
     (POST, ''/api/upload/boundary'', ep_upload_boundary_data),
     (GET, ''/api/layers/{country}'', ep_get_country_layers),
     (GET, ''/api/geoserver/{workspace}/{path:path}'', ep_proxy_geoserver),
     (POST, ''/api/cleanup/layers/{country}'', ep_cleanup_country_layers),
     (POST, ''/api/cleanup/layers/all'', ep_cleanup_all_layers),
     (GET, ''/api/layers/list'', ep_list_all_layers)]"

definition route_match :: "route \<Rightarrow> string list \<Rightarrow> (string \<times> string) list option" where
  "route_match r segs = match_segments (compile_path (fst (snd r))) segs"

definition full_match :: "http_method \<Rightarrow> string list \<Rightarrow> route \<Rightarrow> bool" where
  "full_match m segs r \<longleftrightarrow> route_match r segs \<noteq> None \<and> fst r = m"

datatype dispatch_result =
    Dispatch endpoint "(string \<times> string) list"
  | MethodNotAllowed
  | NoRoute

definition dispatch :: "http_method \<Rightarrow> string \<Rightarrow> dispatch_result" where
  "dispatch m p =
     (let segs = split_on CHR ''/'' p in
      case find (full_match m segs) routes of
        Some r \<Rightarrow>
          (case route_match r segs of
             Some params \<Rightarrow> Dispatch (snd (snd r)) params
           | None \<Rightarrow> NoRoute)
      | None \<Rightarrow>
          if list_ex (\<lambda>r. route_match r segs \<noteq> None) routes then MethodNotAllowed else NoRoute)"

section \<open>Stored metadata, the map service and the cache\<close>

text \<open>
  \<^verbatim>\<open>backend/main.py\<close> works on three collaborators whose modules (\<^verbatim>\<open>database\<close>,
  \<^verbatim>\<open>models\<close>, \<^verbatim>\<open>services.file_processor\<close>, \<^verbatim>\<open>services.geoserver_manager\<close>,
  \<^verbatim>\<open>services.spatial_cache\<close>) are not among the sources. Their state is made explicit
  here, and each of their operations that a handler calls is a function on that state.
  JSON values that the handlers only pass on (statistics, classification, bounds) are
  kept as their text.

  Every handler body is one \<^verbatim>\<open>try\<close> whose \<^verbatim>\<open>except\<close> branch logs and raises
  \<^verbatim>\<open>HTTPException(status_code=500)\<close>; an exception that leaves the handler in another
  way is answered with status 500 as well, so a failed request is the one value
  \<open>HTTP500\<close>. The logging calls do not touch the state and are left out; logging is
  taken at its default level, where the info-level calls do nothing.
\<close>

type_synonym json = string
type_synonym time = int

datatype http_error = HTTP500

record statistics =
  stat_min :: json
  stat_max :: json
  stat_mean :: json

subsection \<open>Metadata rows\<close>

text \<open>
  The four model classes, with the columns that the handlers write and read. The
  handlers build a row without its \<open>id\<close>; the store gives it one.
\<close>

record ClimateData =
  climate_id :: nat
  climate_country :: string
  climate_variable :: string
  climate_scenario :: string
  climate_year_range :: "string option"
  climate_season :: "string option"
  climate_file_path :: string
  climate_min_value :: json
  climate_max_value :: json
  climate_mean_value :: json
  climate_classification :: json

record GiriData =
  giri_id :: nat
  giri_country :: string
  giri_variable :: string
  giri_scenario :: string
  giri_file_path :: string
  giri_min_value :: json
  giri_max_value :: json
  giri_mean_value :: json
  giri_classification :: json

record EnergyData =
  energy_id :: nat
  energy_country :: string
  energy_infrastructure_type :: string
  energy_file_path :: string
  energy_capacity_attribute :: string
  energy_icon_path :: "string option"

record BoundaryData =
  boundary_id :: nat
  boundary_country :: string
  boundary_file_path :: string
  boundary_hover_attribute :: string
  boundary_feature_count :: nat
  boundary_bounds :: json

datatype table = climate_table | giri_table | energy_table | boundary_table

text \<open>
  Modelled from the spec: the persistence layer is missing from the sources; section 6
  describes it as an opaque store that is read per country and written one record at a
  time. The store holds the rows of the four tables, may be unavailable (every call then
  raises), and \<open>query_log\<close> records each per-country query it has answered.
  \<^verbatim>\<open>db.merge(row); db.commit()\<close> on a row built without primary key adds the row.
\<close>

record database =
  climate_rows :: "ClimateData list"
  giri_rows :: "GiriData list"
  energy_rows :: "EnergyData list"
  boundary_rows :: "BoundaryData list"
  db_available :: bool
  query_log :: "(table \<times> string) list"

definition merge_climate :: "ClimateData \<Rightarrow> database \<Rightarrow> database option" where
  "merge_climate row d =
     (if db_available d
      then Some (d\<lparr>climate_rows :=
                    climate_rows d @ [row\<lparr>climate_id := Suc (length (climate_rows d))\<rparr>]\<rparr>)
      else None)"

definition merge_giri :: "GiriData \<Rightarrow> database \<Rightarrow> database option" where
  "merge_giri row d =
     (if db_available d
      then Some (d\<lparr>giri_rows := giri_rows d @ [row\<lparr>giri_id := Suc (length (giri_rows d))\<rparr>]\<rparr>)
      else None)"

definition merge_energy :: "EnergyData \<Rightarrow> database \<Rightarrow> database option" where
  "merge_energy row d =
     (if db_available d
      then Some (d\<lparr>energy_rows :=
                    energy_rows d @ [row\<lparr>energy_id := Suc (length (energy_rows d))\<rparr>]\<rparr>)
      else None)"

definition merge_boundary :: "BoundaryData \<Rightarrow> database \<Rightarrow> database option" where
  "merge_boundary row d =
     (if db_available d
      then Some (d\<lparr>boundary_rows :=
                    boundary_rows d @ [row\<lparr>boundary_id := Suc (length (boundary_rows d))\<rparr>]\<rparr>)
      else None)"

text \<open>The number of metadata records the store holds, over the four tables.\<close>

definition record_count :: "database \<Rightarrow> nat" where
  "record_count d =
     length (climate_rows d) + length (giri_rows d) + length (energy_rows d)
       + length (boundary_rows d)"

subsection \<open>The map service behind the publish client\<close>

datatype PublishError = Unreachable | Rejected | NotFound

datatype ReadinessState = NotStarted | Initializing | Ready | Failed

record LayerRegistration =
  externalName :: string
  identity :: LayerIdentity
  createdAt :: time
  sourceArtifactPath :: string

text \<open>
  Modelled from the spec: \<^verbatim>\<open>services.geoserver_manager\<close> is missing from the sources;
  section 4.2 gives the contract of its operations. The external service holds the
  registered layers. Whether a call reaches the service and is accepted is not decided
  by the program: \<open>publish_fault\<close>, \<open>delete_fault\<close> and \<open>list_fault\<close> say which calls
  fail and how. \<open>publish_calls\<close> records every publish call made to the client.
\<close>

record service =
  registrations :: "LayerRegistration list"
  publish_fault :: "string \<Rightarrow> PublishError option"
  delete_fault :: "string \<Rightarrow> PublishError option"
  list_fault :: "PublishError option"
  publish_calls :: "string list"

text \<open>
  Modelled from the spec: by section 4.2 publishing "registers or replaces" the layer of
  that external name, "replace semantics, not append". The client does not retry and does
  not look at the readiness state. It answers with the name it registered, which the
  handlers use as \<^verbatim>\<open>layer_name\<close>. The identity is carried along so that the
  registration can hold it, as the data model of section 3 has it.
\<close>

definition register_layer :: "LayerRegistration \<Rightarrow> service \<Rightarrow> service" where
  "register_layer r g =
     g\<lparr>registrations :=
         filter (\<lambda>x. externalName x \<noteq> externalName r) (registrations g) @ [r]\<rparr>"

definition publish_layer ::
  "LayerIdentity \<Rightarrow> string \<Rightarrow> string \<Rightarrow> time \<Rightarrow> service \<Rightarrow> (PublishError + string) \<times> service" where
  "publish_layer ident name file_path now g =
     (let g' = g\<lparr>publish_calls := publish_calls g @ [name]\<rparr> in
      case publish_fault g name of
        Some e \<Rightarrow> (Inl e, g')
      | None \<Rightarrow>
          (Inr name,
           register_layer
             \<lparr>externalName = name, identity = ident, createdAt = now,
              sourceArtifactPath = file_path\<rparr> g'))"

definition publish_raster ::
  "LayerIdentity \<Rightarrow> string \<Rightarrow> string \<Rightarrow> json \<Rightarrow> time \<Rightarrow> service
     \<Rightarrow> (PublishError + string) \<times> service" where
  "publish_raster ident name file_path classification now g =
     publish_layer ident name file_path now g"

definition publish_vector ::
  "LayerIdentity \<Rightarrow> string \<Rightarrow> string \<Rightarrow> string \<Rightarrow> time \<Rightarrow> service
     \<Rightarrow> (PublishError + string) \<times> service" where
  "publish_vector ident name file_path attribute now g =
     publish_layer ident name file_path now g"

text \<open>
  Modelled from the spec: \<^verbatim>\<open>get_wms_url\<close> and \<^verbatim>\<open>get_wfs_url\<close> of the manager are
  missing; by section 4.2 the service URL is built from kind and name alone.
\<close>

datatype url_kind = WMS | WFS

datatype service_url = ServiceUrl url_kind string

definition get_wms_url :: "string \<Rightarrow> service_url" where
  "get_wms_url name = ServiceUrl WMS name"

definition get_wfs_url :: "string \<Rightarrow> service_url" where
  "get_wfs_url name = ServiceUrl WFS name"

subsection \<open>What the file processor hands back\<close>

record raster_result =
  cog_path :: string
  result_statistics :: statistics

record energy_result =
  energy_geojson_path :: string
  energy_result_icon_path :: "string option"
  energy_feature_count :: nat

record boundary_result =
  boundary_geojson_path :: string
  boundary_result_feature_count :: nat
  boundary_result_bounds :: json

datatype process_result =
    RasterResult raster_result
  | EnergyResult energy_result
  | BoundaryResult boundary_result

subsection \<open>The payload of a country\<close>

record climate_item =
  ci_id :: nat
  ci_variable :: string
  ci_scenario :: string
  ci_year_range :: "string option"
  ci_season :: "string option"
  ci_statistics :: statistics
  ci_classification :: json
  ci_layer_name :: string
  ci_wms_url :: service_url

record giri_item =
  gi_id :: nat
  gi_variable :: string
  gi_scenario :: string
  gi_statistics :: statistics
  gi_classification :: json
  gi_layer_name :: string
  gi_wms_url :: service_url

record energy_item =
  ei_id :: nat
  ei_infrastructure_type :: string
  ei_capacity_attribute :: string
  ei_icon_path :: "string option"
  ei_layer_name :: string
  ei_wfs_url :: service_url

record boundary_item =
  bi_id :: nat
  bi_hover_attribute :: string
  bi_feature_count :: nat
  bi_bounds :: json
  bi_layer_name :: string
  bi_wfs_url :: service_url

record country_layers =
  cl_country :: string
  cl_climate :: "climate_item list"
  cl_giri :: "giri_item list"
  cl_energy :: "energy_item list"
  cl_boundaries :: "boundary_item list"

subsection \<open>The metadata cache\<close>

text \<open>
  Modelled from the spec: \<^verbatim>\<open>services.spatial_cache\<close> is missing from the sources;
  sections 3 and 4.5 give the cache entry and the contract of \<open>get\<close>, \<open>put\<close> and
  \<open>invalidate\<close>. Keys are countries or layer names; an entry is served only while
  \<open>now - storedAt < ttl\<close>; \<open>put\<close> overwrites; \<open>invalidate\<close> removes the entry. The time
  to live is the cache's own setting.
\<close>

record 'a CacheEntry =
  payload :: 'a
  storedAt :: time
  ttl :: time

record metadata_cache =
  country_entries :: "string \<Rightarrow> country_layers CacheEntry option"
  layer_entries :: "string \<Rightarrow> process_result CacheEntry option"
  cache_ttl :: time

definition cache_get :: "time \<Rightarrow> 'a CacheEntry option \<Rightarrow> 'a option" where
  "cache_get now entry =
     (case entry of
        None \<Rightarrow> None
      | Some e \<Rightarrow> if now - storedAt e < ttl e then Some (payload e) else None)"

definition cached_country_layers :: "string \<Rightarrow> time \<Rightarrow> metadata_cache \<Rightarrow> country_layers option" where
  "cached_country_layers country now c = cache_get now (country_entries c country)"

definition cache_country_layers ::
  "string \<Rightarrow> country_layers \<Rightarrow> time \<Rightarrow> metadata_cache \<Rightarrow> metadata_cache" where
  "cache_country_layers country result now c =
     c\<lparr>country_entries := (country_entries c)
          (country \<mapsto> \<lparr>payload = result, storedAt = now, ttl = cache_ttl c\<rparr>)\<rparr>"

definition cache_layer_info ::
  "string \<Rightarrow> process_result \<Rightarrow> time \<Rightarrow> metadata_cache \<Rightarrow> metadata_cache" where
  "cache_layer_info layer_name result now c =
     c\<lparr>layer_entries := (layer_entries c)
          (layer_name \<mapsto> \<lparr>payload = result, storedAt = now, ttl = cache_ttl c\<rparr>)\<rparr>"

definition invalidate_country :: "string \<Rightarrow> metadata_cache \<Rightarrow> metadata_cache" where
  "invalidate_country country c = c\<lparr>country_entries := (country_entries c)(country := None)\<rparr>"

subsection \<open>The state of the running program\<close>

text \<open>
  Modelled from the spec: the readiness state of the service workspace (section 3). In
  \<^verbatim>\<open>backend/main.py\<close> the startup event starts the initialisation of the map service
  in a background task and goes on; no handler reads what became of it.
\<close>

record system =
  db :: database
  geoserver :: service
  spatial_cache :: metadata_cache
  readiness :: ReadinessState

section \<open>The upload handlers\<close>

text \<open>
  Each handler receives its form fields. Two things it calls lie outside the program's
  state and are part of the request here: what \<^verbatim>\<open>json.loads(classification)\<close> gives
  and what the file processor gives for the uploaded file, \<open>None\<close> when the call raises.
  The four handlers follow one sequence, all inside one \<^verbatim>\<open>try\<close>: process the file,
  build the row, \<^verbatim>\<open>db.merge\<close> and \<^verbatim>\<open>db.commit\<close>, publish to the map service, cache
  the layer info under the name the publish call returned, answer. Any exception on the
  way is answered with status 500; nothing is undone.
\<close>

record climate_form =
  cf_country :: string
  cf_variable :: string
  cf_scenario :: string
  cf_year_range :: "string option"
  cf_season :: "string option"
  cf_classification :: "json option"
  cf_processed :: "raster_result option"

record giri_form =
  gf_country :: string
  gf_variable :: string
  gf_scenario :: string
  gf_classification :: "json option"
  gf_processed :: "raster_result option"

record energy_form =
  ef_country :: string
  ef_infrastructure_type :: string
  ef_capacity_attribute :: string
  ef_processed :: "energy_result option"

record boundary_form =
  bf_country :: string
  bf_hover_attribute :: string
  bf_processed :: "boundary_result option"

record upload_response =
  up_layer_name :: string
  up_statistics :: "statistics option"
  up_feature_count :: "nat option"
  up_bounds :: "json option"
  up_message :: string

definition upload_climate_data ::
  "climate_form \<Rightarrow> time \<Rightarrow> system \<Rightarrow> (http_error + upload_response) \<times> system" where
  "upload_climate_data f now s =
     (case cf_classification f of
        None \<Rightarrow> (Inl HTTP500, s)
      | Some classification \<Rightarrow>
     (case cf_processed f of
        None \<Rightarrow> (Inl HTTP500, s)
      | Some result \<Rightarrow>
     (case merge_climate
             \<lparr>climate_id = 0, climate_country = cf_country f,
              climate_variable = cf_variable f, climate_scenario = cf_scenario f,
              climate_year_range = cf_year_range f, climate_season = cf_season f,
              climate_file_path = cog_path result,
              climate_min_value = stat_min (result_statistics result),
              climate_max_value = stat_max (result_statistics result),
              climate_mean_value = stat_mean (result_statistics result),
              climate_classification = classification\<rparr> (db s) of
        None \<Rightarrow> (Inl HTTP500, s)
      | Some d \<Rightarrow>
     (case publish_raster (Climate (cf_country f) (cf_variable f) (cf_scenario f))
             (climate_layer_name (cf_country f) (cf_variable f) (cf_scenario f))
             (cog_path result) classification now (geoserver s) of
        (Inl e, g) \<Rightarrow> (Inl HTTP500, s\<lparr>db := d, geoserver := g\<rparr>)
      | (Inr layer_name, g) \<Rightarrow>
          (Inr \<lparr>up_layer_name = layer_name,
                up_statistics = Some (result_statistics result),
                up_feature_count = None, up_bounds = None,
                up_message = ''Climate data uploaded and processed successfully''\<rparr>,
           s\<lparr>db := d, geoserver := g,
             spatial_cache :=
               cache_layer_info layer_name (RasterResult result) now (spatial_cache s)\<rparr>)))))"

definition upload_giri_data ::
  "giri_form \<Rightarrow> time \<Rightarrow> system \<Rightarrow> (http_error + upload_response) \<times> system" where
  "upload_giri_data f now s =
     (case gf_classification f of
        None \<Rightarrow> (Inl HTTP500, s)
      | Some classification \<Rightarrow>
     (case gf_processed f of
        None \<Rightarrow> (Inl HTTP500, s)
      | Some result \<Rightarrow>
     (case merge_giri
             \<lparr>giri_id = 0, giri_country = gf_country f,
              giri_variable = gf_variable f, giri_scenario = gf_scenario f,
              giri_file_path = cog_path result,
              giri_min_value = stat_min (result_statistics result),
              giri_max_value = stat_max (result_statistics result),
              giri_mean_value = stat_mean (result_statistics result),
              giri_classification = classification\<rparr> (db s) of
        None \<Rightarrow> (Inl HTTP500, s)
      | Some d \<Rightarrow>
     (case publish_raster (Giri (gf_country f) (gf_variable f) (gf_scenario f))
             (giri_layer_name (gf_country f) (gf_variable f) (gf_scenario f))
             (cog_path result) classification now (geoserver s) of
        (Inl e, g) \<Rightarrow> (Inl HTTP500, s\<lparr>db := d, geoserver := g\<rparr>)
      | (Inr layer_name, g) \<Rightarrow>
          (Inr \<lparr>up_layer_name = layer_name,
                up_statistics = Some (result_statistics result),
                up_feature_count = None, up_bounds = None,
                up_message = ''GIRI data uploaded and processed successfully''\<rparr>,
           s\<lparr>db := d, geoserver := g,
             spatial_cache :=
               cache_layer_info layer_name (RasterResult result) now (spatial_cache s)\<rparr>)))))"

definition upload_energy_data ::
  "energy_form \<Rightarrow> time \<Rightarrow> system \<Rightarrow> (http_error + upload_response) \<times> system" where
  "upload_energy_data f now s =
     (case ef_processed f of
        None \<Rightarrow> (Inl HTTP500, s)
      | Some result \<Rightarrow>
     (case merge_energy
             \<lparr>energy_id = 0, energy_country = ef_country f,
              energy_infrastructure_type = ef_infrastructure_type f,
              energy_file_path = energy_geojson_path result,
              energy_capacity_attribute = ef_capacity_attribute f,
              energy_icon_path = energy_result_icon_path result\<rparr> (db s) of
        None \<Rightarrow> (Inl HTTP500, s)
      | Some d \<Rightarrow>
     (case publish_vector (Energy (ef_country f) (ef_infrastructure_type f))
             (energy_layer_name (ef_country f) (ef_infrastructure_type f))
             (energy_geojson_path result) (ef_capacity_attribute f) now (geoserver s) of
        (Inl e, g) \<Rightarrow> (Inl HTTP500, s\<lparr>db := d, geoserver := g\<rparr>)
      | (Inr layer_name, g) \<Rightarrow>
          (Inr \<lparr>up_layer_name = layer_name, up_statistics = None,
                up_feature_count = Some (energy_feature_count result), up_bounds = None,
                up_message = ''Energy data uploaded and processed successfully''\<rparr>,
           s\<lparr>db := d, geoserver := g,
             spatial_cache :=
               cache_layer_info layer_name (EnergyResult result) now (spatial_cache s)\<rparr>))))"

definition upload_boundary_data ::
  "boundary_form \<Rightarrow> time \<Rightarrow> system \<Rightarrow> (http_error + upload_response) \<times> system" where
  "upload_boundary_data f now s =
     (case bf_processed f of
        None \<Rightarrow> (Inl HTTP500, s)
      | Some result \<Rightarrow>
     (case merge_boundary
             \<lparr>boundary_id = 0, boundary_country = bf_country f,
              boundary_file_path = boundary_geojson_path result,
              boundary_hover_attribute = bf_hover_attribute f,
              boundary_feature_count = boundary_result_feature_count result,
              boundary_bounds = boundary_result_bounds result\<rparr> (db s) of
        None \<Rightarrow> (Inl HTTP500, s)
      | Some d \<Rightarrow>
     (case publish_vector (Boundary (bf_country f)) (boundary_layer_name (bf_country f))
             (boundary_geojson_path result) (bf_hover_attribute f) now (geoserver s) of
        (Inl e, g) \<Rightarrow> (Inl HTTP500, s\<lparr>db := d, geoserver := g\<rparr>)
      | (Inr layer_name, g) \<Rightarrow>
          (Inr \<lparr>up_layer_name = layer_name, up_statistics = None,
                up_feature_count = Some (boundary_result_feature_count result),
                up_bounds = Some (boundary_result_bounds result),
                up_message = ''Boundary data uploaded and processed successfully''\<rparr>,
           s\<lparr>db := d, geoserver := g,
             spatial_cache :=
               cache_layer_info layer_name (BoundaryResult result) now (spatial_cache s)\<rparr>))))"

text \<open>
  A publish request is a request to one of the four handlers; \<open>upload\<close> runs the
  handler of the request and \<open>request_identity\<close> is the identity it publishes.
\<close>

datatype upload_request =
    UploadClimate climate_form
  | UploadGiri giri_form
  | UploadEnergy energy_form
  | UploadBoundary boundary_form

fun upload :: "upload_request \<Rightarrow> time \<Rightarrow> system \<Rightarrow> (http_error + upload_response) \<times> system" where
  "upload (UploadClimate f) now s = upload_climate_data f now s"
| "upload (UploadGiri f) now s = upload_giri_data f now s"
| "upload (UploadEnergy f) now s = upload_energy_data f now s"
| "upload (UploadBoundary f) now s = upload_boundary_data f now s"

fun request_identity :: "upload_request \<Rightarrow> LayerIdentity" where
  "request_identity (UploadClimate f) = Climate (cf_country f) (cf_variable f) (cf_scenario f)"
| "request_identity (UploadGiri f) = Giri (gf_country f) (gf_variable f) (gf_scenario f)"
| "request_identity (UploadEnergy f) = Energy (ef_country f) (ef_infrastructure_type f)"
| "request_identity (UploadBoundary f) = Boundary (bf_country f)"

text \<open>
  A request is well formed when the classification text parses and the file processor
  gave a result, so that the handler gets as far as the store.
\<close>

fun processed_ok :: "upload_request \<Rightarrow> bool" where
  "processed_ok (UploadClimate f) = (cf_classification f \<noteq> None \<and> cf_processed f \<noteq> None)"
| "processed_ok (UploadGiri f) = (gf_classification f \<noteq> None \<and> gf_processed f \<noteq> None)"
| "processed_ok (UploadEnergy f) = (ef_processed f \<noteq> None)"
| "processed_ok (UploadBoundary f) = (bf_processed f \<noteq> None)"

section \<open>Reading the layers of a country\<close>

text \<open>
  \<^verbatim>\<open>get_country_layers\<close> asks the cache first and answers with what it holds. Otherwise
  it queries the four tables for the country, builds the payload with the layer names
  and service URLs, stores it in the cache and answers with it. A payload always has
  its five keys, so the test \<^verbatim>\<open>if cached_result\<close> succeeds whenever the cache answers.
\<close>

definition climate_item_of :: "string \<Rightarrow> ClimateData \<Rightarrow> climate_item" where
  "climate_item_of country layer =
     \<lparr>ci_id = climate_id layer, ci_variable = climate_variable layer,
      ci_scenario = climate_scenario layer, ci_year_range = climate_year_range layer,
      ci_season = climate_season layer,
      ci_statistics = \<lparr>stat_min = climate_min_value layer, stat_max = climate_max_value layer,
                        stat_mean = climate_mean_value layer\<rparr>,
      ci_classification = climate_classification layer,
      ci_layer_name = climate_layer_name country (climate_variable layer) (climate_scenario layer),
      ci_wms_url =
        get_wms_url (climate_layer_name country (climate_variable layer) (climate_scenario layer))\<rparr>"

definition giri_item_of :: "string \<Rightarrow> GiriData \<Rightarrow> giri_item" where
  "giri_item_of country layer =
     \<lparr>gi_id = giri_id layer, gi_variable = giri_variable layer,
      gi_scenario = giri_scenario layer,
      gi_statistics = \<lparr>stat_min = giri_min_value layer, stat_max = giri_max_value layer,
                        stat_mean = giri_mean_value layer\<rparr>,
      gi_classification = giri_classification layer,
      gi_layer_name = giri_layer_name country (giri_variable layer) (giri_scenario layer),
      gi_wms_url =
        get_wms_url (giri_layer_name country (giri_variable layer) (giri_scenario layer))\<rparr>"

definition energy_item_of :: "string \<Rightarrow> EnergyData \<Rightarrow> energy_item" where
  "energy_item_of country layer =
     \<lparr>ei_id = energy_id layer, ei_infrastructure_type = energy_infrastructure_type layer,
      ei_capacity_attribute = energy_capacity_attribute layer,
      ei_icon_path = energy_icon_path layer,
      ei_layer_name = energy_layer_name country (energy_infrastructure_type layer),
      ei_wfs_url = get_wfs_url (energy_layer_name country (energy_infrastructure_type layer))\<rparr>"

definition boundary_item_of :: "string \<Rightarrow> BoundaryData \<Rightarrow> boundary_item" where
  "boundary_item_of country layer =
     \<lparr>bi_id = boundary_id layer, bi_hover_attribute = boundary_hover_attribute layer,
      bi_feature_count = boundary_feature_count layer, bi_bounds = boundary_bounds layer,
      bi_layer_name = boundary_layer_name country,
      bi_wfs_url = get_wfs_url (boundary_layer_name country)\<rparr>"

definition assemble :: "string \<Rightarrow> database \<Rightarrow> country_layers" where
  "assemble country d =
     \<lparr>cl_country = country,
      cl_climate =
        map (climate_item_of country) (filter (\<lambda>r. climate_country r = country) (climate_rows d)),
      cl_giri =
        map (giri_item_of country) (filter (\<lambda>r. giri_country r = country) (giri_rows d)),
      cl_energy =
        map (energy_item_of country) (filter (\<lambda>r. energy_country r = country) (energy_rows d)),
      cl_boundaries =
        map (boundary_item_of country)
          (filter (\<lambda>r. boundary_country r = country) (boundary_rows d))\<rparr>"

definition get_country_layers ::
  "string \<Rightarrow> time \<Rightarrow> system \<Rightarrow> (http_error + country_layers) \<times> system" where
  "get_country_layers country now s =
     (case cached_country_layers country now (spatial_cache s) of
        Some cached_result \<Rightarrow> (Inr cached_result, s)
      | None \<Rightarrow>
          if \<not> db_available (db s) then (Inl HTTP500, s)
          else
            let result = assemble country (db s);
                d = (db s)\<lparr>query_log := query_log (db s) @
                       [(climate_table, country), (giri_table, country),
                        (energy_table, country), (boundary_table, country)]\<rparr>
            in (Inr result,
                s\<lparr>db := d,
                  spatial_cache := cache_country_layers country result now (spatial_cache s)\<rparr>))"

section \<open>A small running system\<close>

text \<open>
  A freshly started system: empty tables, a reachable map service with no layers, an
  empty cache that keeps entries for an hour, and a workspace whose initialisation has
  not begun. \<open>example_form\<close> is the climate upload of the fresh-publish scenario.
\<close>

definition example_form :: climate_form where
  "example_form =
     \<lparr>cf_country = ''laos'', cf_variable = ''temp'', cf_scenario = ''rcp45'',
      cf_year_range = None, cf_season = None, cf_classification = Some ''{}'',
      cf_processed =
        Some \<lparr>cog_path = ''/path/a.tif'',
              result_statistics = \<lparr>stat_min = ''1'', stat_max = ''9'', stat_mean = ''5''\<rparr>\<rparr>\<rparr>"

definition example_system :: system where
  "example_system =
     \<lparr>db = \<lparr>climate_rows = [], giri_rows = [], energy_rows = [], boundary_rows = [],
             db_available = True, query_log = []\<rparr>,
      geoserver = \<lparr>registrations = [], publish_fault = (\<lambda>n. None),
                    delete_fault = (\<lambda>n. None), list_fault = None, publish_calls = []\<rparr>,
      spatial_cache = \<lparr>country_entries = (\<lambda>c. None), layer_entries = (\<lambda>n. None),
                        cache_ttl = 3600\<rparr>,
      readiness = NotStarted\<rparr>"

text \<open>The same system after the layers of Laos have been read once, at time 0.\<close>

definition after_first_read :: system where
  "after_first_read = snd (get_country_layers ''laos'' 0 example_system)"

text \<open>And after the climate layer has then been uploaded, at time 10.\<close>

definition after_publish :: system where
  "after_publish = snd (upload (UploadClimate example_form) 10 after_first_read)"

text \<open>The fresh system with a map service that cannot be reached.\<close>

definition unreachable_system :: system where
  "unreachable_system =
     example_system\<lparr>geoserver := (geoserver example_system)\<lparr>publish_fault := (\<lambda>n. Some Unreachable)\<rparr>\<rparr>"

section \<open>Duplicate layers and their cleanup\<close>

text \<open>
  Modelled from the spec: listing, deleting, the duplicate resolver and the two cleanup
  operations belong to \<^verbatim>\<open>services.geoserver_manager\<close>, which is missing from the
  sources; sections 4.2, 4.4 and 4.6 describe them. Only the two handlers that call
  them, \<^verbatim>\<open>cleanup_country_layers\<close> and \<^verbatim>\<open>cleanup_all_layers\<close>, are in
  \<^verbatim>\<open>backend/main.py\<close>; they hand the manager no cache.
\<close>

text \<open>
  Modelled from the spec: by section 4.2 \<open>listLayers\<close> gives the registrations of the scope, or
  fails; \<open>deleteLayer\<close> removes the layer of that name and succeeds, as a no-op, when
  the layer is absent or the service answers \<open>NotFound\<close>.
\<close>

definition list_layers :: "string option \<Rightarrow> service \<Rightarrow> PublishError + LayerRegistration list" where
  "list_layers scope g =
     (case list_fault g of
        Some e \<Rightarrow> Inl e
      | None \<Rightarrow>
          Inr (case scope of
                 None \<Rightarrow> registrations g
               | Some c \<Rightarrow> filter (\<lambda>r. country_of (identity r) = c) (registrations g)))"

definition delete_layer :: "string \<Rightarrow> service \<Rightarrow> (PublishError + unit) \<times> service" where
  "delete_layer name g =
     (case delete_fault g name of
        Some Unreachable \<Rightarrow> (Inl Unreachable, g)
      | Some Rejected \<Rightarrow> (Inl Rejected, g)
      | Some NotFound \<Rightarrow> (Inr (), g)
      | None \<Rightarrow>
          (Inr (), g\<lparr>registrations := filter (\<lambda>r. externalName r \<noteq> name) (registrations g)\<rparr>))"

text \<open>
  Modelled from the spec: by section 4.4 the registrations are grouped by identity; each group is
  sorted by creation time, most recent first, and among equal times the name that sorts
  greatest comes first; the first of a group is kept and the others are stale.
\<close>

definition recency :: "LayerRegistration \<Rightarrow> time \<times> string" where
  "recency r = (createdAt r, externalName r)"

definition newest_first :: "LayerRegistration list \<Rightarrow> LayerRegistration list" where
  "newest_first rs = rev (sort_key recency rs)"

definition group_of :: "LayerIdentity \<Rightarrow> LayerRegistration list \<Rightarrow> LayerRegistration list" where
  "group_of i rs = filter (\<lambda>r. identity r = i) rs"

record resolution =
  kept :: "LayerRegistration list"
  stale :: "LayerRegistration list"

definition resolve_duplicates :: "LayerRegistration list \<Rightarrow> resolution" where
  "resolve_duplicates rs =
     (let identities = remdups (map identity rs) in
      \<lparr>kept = concat (map (\<lambda>i. take 1 (newest_first (group_of i rs))) identities),
       stale = concat (map (\<lambda>i. drop 1 (newest_first (group_of i rs))) identities)\<rparr>)"

text \<open>
  Modelled from the spec: by section 4.4 every stale entry is deleted in turn; a deletion that
  fails is recorded with its reason and the next candidate is tried.
\<close>

fun delete_stale ::
  "LayerRegistration list \<Rightarrow> service \<Rightarrow> nat \<times> (string \<times> PublishError) list \<times> service" where
  "delete_stale [] g = (0, [], g)"
| "delete_stale (r # rs) g =
     (case delete_layer (externalName r) g of
        (Inl e, g') \<Rightarrow>
          (case delete_stale rs g' of (n, fs, g'') \<Rightarrow> (n, (externalName r, e) # fs, g''))
      | (Inr u, g') \<Rightarrow>
          (case delete_stale rs g' of (n, fs, g'') \<Rightarrow> (Suc n, fs, g'')))"

text \<open>
  What the manager hands back to the handlers: a dictionary with the keys that the
  handlers read (\<^verbatim>\<open>success\<close>, \<^verbatim>\<open>error\<close>, and for the run over all countries
  \<^verbatim>\<open>countries_processed\<close>, \<^verbatim>\<open>total_deleted\<close>, \<^verbatim>\<open>total_kept\<close>,
  \<^verbatim>\<open>detailed_results\<close>), with the counts and the failure list of section 6.
\<close>

record cleanup_result =
  cr_success :: bool
  cr_deleted :: nat
  cr_kept :: nat
  cr_failures :: "(string \<times> PublishError) list"
  cr_error :: "PublishError option"

record cleanup_all_result =
  ar_success :: bool
  ar_countries_processed :: nat
  ar_total_deleted :: nat
  ar_total_kept :: nat
  ar_detailed_results :: "(string \<times> cleanup_result) list"
  ar_error :: "PublishError option"

definition in_country :: "string \<Rightarrow> LayerRegistration \<Rightarrow> bool" where
  "in_country c r \<longleftrightarrow> country_of (identity r) = c"

definition countries_of :: "LayerRegistration list \<Rightarrow> string list" where
  "countries_of rs = remdups (map (\<lambda>r. country_of (identity r)) rs)"

text \<open>
  Modelled from the spec: by section 4.6 a cleanup lists the registrations of its scope,
  runs the resolver, deletes the stale entries and reports; over all countries the
  report is per country, and a failure in one country does not fail the operation.
  \<open>cleanup_country\<close> does the deletions and the report of one country, given the
  resolver's verdict. A cleanup fails as a whole only when the listing fails.
\<close>

definition cleanup_country ::
  "resolution \<Rightarrow> string \<Rightarrow> service \<Rightarrow> cleanup_result \<times> service" where
  "cleanup_country res c g =
     (case delete_stale (filter (in_country c) (stale res)) g of
        (n, fs, g') \<Rightarrow>
          (\<lparr>cr_success = True, cr_deleted = n,
            cr_kept = length (filter (in_country c) (kept res)),
            cr_failures = fs, cr_error = None\<rparr>, g'))"

fun cleanup_countries ::
  "resolution \<Rightarrow> string list \<Rightarrow> service \<Rightarrow> (string \<times> cleanup_result) list \<times> service" where
  "cleanup_countries res [] g = ([], g)"
| "cleanup_countries res (c # cs) g =
     (case cleanup_country res c g of
        (report, g') \<Rightarrow>
          (case cleanup_countries res cs g' of
             (reports, g'') \<Rightarrow> ((c, report) # reports, g'')))"

definition cleanup_duplicate_layers :: "string \<Rightarrow> service \<Rightarrow> cleanup_result \<times> service" where
  "cleanup_duplicate_layers country g =
     (case list_layers (Some country) g of
        Inl e \<Rightarrow>
          (\<lparr>cr_success = False, cr_deleted = 0, cr_kept = 0, cr_failures = [],
            cr_error = Some e\<rparr>, g)
      | Inr rs \<Rightarrow> cleanup_country (resolve_duplicates rs) country g)"

definition cleanup_all_duplicate_layers :: "service \<Rightarrow> cleanup_all_result \<times> service" where
  "cleanup_all_duplicate_layers g =
     (case list_layers None g of
        Inl e \<Rightarrow>
          (\<lparr>ar_success = False, ar_countries_processed = 0, ar_total_deleted = 0,
            ar_total_kept = 0, ar_detailed_results = [], ar_error = Some e\<rparr>, g)
      | Inr rs \<Rightarrow>
          (case cleanup_countries (resolve_duplicates rs) (countries_of rs) g of
             (reports, g') \<Rightarrow>
               (\<lparr>ar_success = True, ar_countries_processed = length reports,
                 ar_total_deleted = sum_list (map (\<lambda>(c, r). cr_deleted r) reports),
                 ar_total_kept = sum_list (map (\<lambda>(c, r). cr_kept r) reports),
                 ar_detailed_results = reports, ar_error = None\<rparr>, g')))"

subsection \<open>The two cleanup handlers\<close>

text \<open>
  From \<^verbatim>\<open>backend/main.py\<close>: each handler calls the manager and answers with its result
  when \<^verbatim>\<open>result["success"]\<close> holds; otherwise it raises, and the request fails with
  status 500.
\<close>

record cleanup_all_response =
  countries_processed :: nat
  total_deleted :: nat
  total_kept :: nat
  details :: "(string \<times> cleanup_result) list"

definition cleanup_country_layers ::
  "string \<Rightarrow> system \<Rightarrow> (http_error + cleanup_result) \<times> system" where
  "cleanup_country_layers country s =
     (case cleanup_duplicate_layers country (geoserver s) of
        (result, g) \<Rightarrow>
          if cr_success result then (Inr result, s\<lparr>geoserver := g\<rparr>)
          else (Inl HTTP500, s\<lparr>geoserver := g\<rparr>))"

definition cleanup_all_layers :: "system \<Rightarrow> (http_error + cleanup_all_response) \<times> system" where
  "cleanup_all_layers s =
     (case cleanup_all_duplicate_layers (geoserver s) of
        (result, g) \<Rightarrow>
          if ar_success result
          then (Inr \<lparr>countries_processed = ar_countries_processed result,
                     total_deleted = ar_total_deleted result,
                     total_kept = ar_total_kept result,
                     details = ar_detailed_results result\<rparr>, s\<lparr>geoserver := g\<rparr>)
          else (Inl HTTP500, s\<lparr>geoserver := g\<rparr>))"

subsection \<open>Three countries with duplicate layers\<close>

text \<open>
  Laos, Bhutan and Nepal each hold two registrations of one climate layer, an older and
  a newer one; the map service cannot be reached for deleting Bhutan's older layer.
\<close>

definition registration ::
  "string \<Rightarrow> LayerIdentity \<Rightarrow> time \<Rightarrow> LayerRegistration" where
  "registration name i t =
     \<lparr>externalName = name, identity = i, createdAt = t, sourceArtifactPath = ''/data/'' @ name\<rparr>"

definition duplicate_layers :: "LayerRegistration list" where
  "duplicate_layers =
     [registration ''laos_temp_rcp45_t1'' (Climate ''laos'' ''temp'' ''rcp45'') 20240101,
      registration ''bhutan_temp_rcp45_t2'' (Climate ''bhutan'' ''temp'' ''rcp45'') 20240201,
      registration ''laos_temp_rcp45_t2'' (Climate ''laos'' ''temp'' ''rcp45'') 20240201,
      registration ''nepal_temp_rcp45_t1'' (Climate ''nepal'' ''temp'' ''rcp45'') 20240101,
      registration ''bhutan_temp_rcp45_t1'' (Climate ''bhutan'' ''temp'' ''rcp45'') 20240101,
      registration ''nepal_temp_rcp45_t2'' (Climate ''nepal'' ''temp'' ''rcp45'') 20240201]"

definition laos_duplicates :: "LayerRegistration list" where
  "laos_duplicates =
     [registration ''laos_temp_rcp45_t1'' (Climate ''laos'' ''temp'' ''rcp45'') 20240101,
      registration ''laos_temp_rcp45_t2'' (Climate ''laos'' ''temp'' ''rcp45'') 20240201]"

definition duplicates_system :: system where
  "duplicates_system =
     example_system\<lparr>geoserver := (geoserver example_system)
       \<lparr>registrations := duplicate_layers,
        delete_fault := (\<lambda>n. if n = ''bhutan_temp_rcp45_t1'' then Some Unreachable else None)\<rparr>\<rparr>"

subsection \<open>Systems that already hold layers and records\<close>

text \<open>
  A map service that already holds the climate layer of Laos under an earlier,
  timestamped name.
\<close>

definition legacy_system :: system where
  "legacy_system =
     example_system\<lparr>geoserver := (geoserver example_system)
       \<lparr>registrations :=
          [registration ''laos_temp_rcp45_t1'' (Climate ''laos'' ''temp'' ''rcp45'') 20240101]\<rparr>\<rparr>"

text \<open>
  A map service that holds the climate layer of Laos under the name the handler
  computes, and the boundary layer of Laos.
\<close>

definition published_system :: system where
  "published_system =
     example_system\<lparr>geoserver := (geoserver example_system)
       \<lparr>registrations :=
          [registration ''laos_temp_rcp45'' (Climate ''laos'' ''temp'' ''rcp45'') 20240101,
           registration ''laos_boundary'' (Boundary ''laos'') 20240101]\<rparr>\<rparr>"

text \<open>
  A store with records in all four tables: two climate layers, one of them of another
  country, and one hazard, one energy and one boundary layer of Laos. The cache is empty.
\<close>

definition stocked_system :: system where
  "stocked_system =
     example_system\<lparr>db :=
       \<lparr>climate_rows =
          [\<lparr>climate_id = 1, climate_country = ''laos'', climate_variable = ''temp'',
            climate_scenario = ''rcp45'', climate_year_range = Some ''2040-2060'',
            climate_season = None, climate_file_path = ''/cog/laos_temp.tif'',
            climate_min_value = ''1'', climate_max_value = ''9'', climate_mean_value = ''5'',
            climate_classification = ''{}''\<rparr>,
           \<lparr>climate_id = 2, climate_country = ''bhutan'', climate_variable = ''temp'',
            climate_scenario = ''rcp45'', climate_year_range = None,
            climate_season = None, climate_file_path = ''/cog/bhutan_temp.tif'',
            climate_min_value = ''0'', climate_max_value = ''7'', climate_mean_value = ''3'',
            climate_classification = ''{}''\<rparr>],
        giri_rows =
          [\<lparr>giri_id = 1, giri_country = ''laos'', giri_variable = ''flood'',
            giri_scenario = ''rp100'', giri_file_path = ''/cog/laos_flood.tif'',
            giri_min_value = ''0'', giri_max_value = ''4'', giri_mean_value = ''2'',
            giri_classification = ''{}''\<rparr>],
        energy_rows =
          [\<lparr>energy_id = 1, energy_country = ''laos'', energy_infrastructure_type = ''hydro'',
            energy_file_path = ''/geo/laos_hydro.geojson'', energy_capacity_attribute = ''mw'',
            energy_icon_path = None\<rparr>],
        boundary_rows =
          [\<lparr>boundary_id = 1, boundary_country = ''laos'',
            boundary_file_path = ''/geo/laos.geojson'', boundary_hover_attribute = ''name'',
            boundary_feature_count = 18, boundary_bounds = ''[]''\<rparr>],
        db_available = True, query_log = []\<rparr>\<rparr>"

text \<open>The payload of Laos that this store gives.\<close>

definition laos_payload :: country_layers where
  "laos_payload =
     \<lparr>cl_country = ''laos'',
      cl_climate =
        [\<lparr>ci_id = 1, ci_variable = ''temp'', ci_scenario = ''rcp45'',
          ci_year_range = Some ''2040-2060'', ci_season = None,
          ci_statistics = \<lparr>stat_min = ''1'', stat_max = ''9'', stat_mean = ''5''\<rparr>,
          ci_classification = ''{}'', ci_layer_name = ''laos_temp_rcp45'',
          ci_wms_url = ServiceUrl WMS ''laos_temp_rcp45''\<rparr>],
      cl_giri =
        [\<lparr>gi_id = 1, gi_variable = ''flood'', gi_scenario = ''rp100'',
          gi_statistics = \<lparr>stat_min = ''0'', stat_max = ''4'', stat_mean = ''2''\<rparr>,
          gi_classification = ''{}'', gi_layer_name = ''laos_flood_rp100_giri'',
          gi_wms_url = ServiceUrl WMS ''laos_flood_rp100_giri''\<rparr>],
      cl_energy =
        [\<lparr>ei_id = 1, ei_infrastructure_type = ''hydro'', ei_capacity_attribute = ''mw'',
          ei_icon_path = None, ei_layer_name = ''laos_hydro_energy'',
          ei_wfs_url = ServiceUrl WFS ''laos_hydro_energy''\<rparr>],
      cl_boundaries =
        [\<lparr>bi_id = 1, bi_hover_attribute = ''name'', bi_feature_count = 18,
          bi_bounds = ''[]'', bi_layer_name = ''laos_boundary'',
          bi_wfs_url = ServiceUrl WFS ''laos_boundary''\<rparr>]\<rparr>"

section \<open>Properties of the layer names\<close>

lemma identity_tuple_inj: "identity_tuple a = identity_tuple b \<Longrightarrow> a = b"
  by (cases a; cases b) simp_all

lemma underscore_free_set: "underscore_free s \<longleftrightarrow> CHR ''_'' \<notin> set s"
  by (induction s) (auto simp: underscore_free_def)

lemma split_at_separator:
  "CHR ''_'' \<notin> set a \<Longrightarrow> CHR ''_'' \<notin> set c \<Longrightarrow>
   a @ CHR ''_'' # b = c @ CHR ''_'' # d \<Longrightarrow> a = c \<and> b = d"
proof (induction a arbitrary: c)
  case Nil
  then show ?case by (cases c) auto
next
  case (Cons x a)
  then show ?case by (cases c) auto
qed

lemma no_separator_in_tail:
  "CHR ''_'' \<notin> set r \<Longrightarrow> a @ CHR ''_'' # b \<noteq> r"
  by (metis in_set_conv_decomp)

lemma sep_cons:
  "CHR ''_'' \<notin> set a \<Longrightarrow> CHR ''_'' \<notin> set c \<Longrightarrow>
   (a @ CHR ''_'' # b = c @ CHR ''_'' # d) = (a = c \<and> b = d)"
  using split_at_separator by blast

lemma sep_lit:
  "CHR ''_'' \<notin> set r \<Longrightarrow> (a @ CHR ''_'' # b = r) = False"
  "CHR ''_'' \<notin> set r \<Longrightarrow> (r = a @ CHR ''_'' # b) = False"
  using no_separator_in_tail by blast+

lemmas name_defs =
  climate_layer_name_def giri_layer_name_def energy_layer_name_def boundary_layer_name_def

text \<open>
  C1 (as stated, refuted). The claim says that identities with distinct
  (country, kind, variable, scenario) tuples never get the same name, and in particular
  that a climate and a giri identity never do. The climate identity with scenario
  \<open>rcp45_giri\<close> and the giri identity with scenario \<open>rcp45\<close> are distinct and
  both get the name \<open>laos_temp_rcp45_giri\<close>.
\<close>

theorem encode_collision_climate_giri:
  "identity_tuple (Climate ''laos'' ''temp'' ''rcp45_giri'')
     \<noteq> identity_tuple (Giri ''laos'' ''temp'' ''rcp45'')
   \<and> encode (Climate ''laos'' ''temp'' ''rcp45_giri'') = ''laos_temp_rcp45_giri''
   \<and> encode (Giri ''laos'' ''temp'' ''rcp45'') = ''laos_temp_rcp45_giri''"
  by (simp add: climate_layer_name_def giri_layer_name_def)

text \<open>
  C1 (amended). For identities whose fields hold no underscore, and whose scenario, for a
  climate identity, is not \<open>energy\<close>, distinct (country, kind, variable, scenario)
  tuples get distinct names; among such identities a climate and a giri identity never
  share a name.
\<close>

theorem encode_injective_on_plain:
  assumes "plain a" and "plain b" and "identity_tuple a \<noteq> identity_tuple b"
  shows "encode a \<noteq> encode b"
proof
  assume eq: "encode a = encode b"
  have "a = b"
  proof (cases a)
    case (Climate c v s)
    with assms(1,2) eq show ?thesis
      by (cases b) (auto simp: name_defs underscore_free_set sep_cons sep_lit)
  next
    case (Giri c v s)
    with assms(1,2) eq show ?thesis
      by (cases b) (auto simp: name_defs underscore_free_set sep_cons sep_lit)
  next
    case (Energy c t)
    with assms(1,2) eq show ?thesis
      by (cases b) (auto simp: name_defs underscore_free_set sep_cons sep_lit)
  next
    case (Boundary c)
    with assms(1,2) eq show ?thesis
      by (cases b) (auto simp: name_defs underscore_free_set sep_cons sep_lit)
  qed
  with assms(3) show False by simp
qed

theorem encode_injective_on_plain_witness:
  "plain (Climate ''laos'' ''temp'' ''rcp45'') \<and> plain (Giri ''laos'' ''temp'' ''rcp45'')
   \<and> identity_tuple (Climate ''laos'' ''temp'' ''rcp45'')
        \<noteq> identity_tuple (Giri ''laos'' ''temp'' ''rcp45'')
   \<and> encode (Climate ''laos'' ''temp'' ''rcp45'') \<noteq> encode (Giri ''laos'' ''temp'' ''rcp45'')"
proof -
  have p1: "plain (Climate ''laos'' ''temp'' ''rcp45'')"
    by (simp add: underscore_free_def)
  have p2: "plain (Giri ''laos'' ''temp'' ''rcp45'')"
    by (simp add: underscore_free_def)
  have d: "identity_tuple (Climate ''laos'' ''temp'' ''rcp45'')
             \<noteq> identity_tuple (Giri ''laos'' ''temp'' ''rcp45'')"
    by simp
  from encode_injective_on_plain [OF p1 p2 d] p1 p2 d show ?thesis by blast
qed

text \<open>
  C10 (as stated, refuted). The claim says that the name holds only lowercase letters,
  digits and underscores because the fields are normalised before composition. The
  handlers compose the raw fields: an uppercase letter, a blank and a hyphen all reach
  the name.
\<close>

theorem encode_keeps_raw_characters:
  "encode (Climate ''Lao PDR'' ''temp'' ''rcp-45'') = ''Lao PDR_temp_rcp-45''
   \<and> \<not> legal_name (encode (Climate ''Lao PDR'' ''temp'' ''rcp-45''))"
  by (simp add: climate_layer_name_def legal_name_def legal_char_def)

text \<open>
  C10 (amended). The name is composed from the fields as they are received, without
  normalisation: it holds only lowercase letters, digits and underscores exactly when
  every field of the identity does.
\<close>

theorem encode_legal_iff_fields_legal:
  "legal_name (encode i) = list_all legal_name (identity_fields i)"
  by (cases i) (auto simp: name_defs legal_name_def legal_char_def)

theorem encode_legal_iff_fields_legal_witness:
  "legal_name (encode (Energy ''laos'' ''hydro''))
   \<and> list_all legal_name (identity_fields (Energy ''laos'' ''hydro''))"
  using encode_legal_iff_fields_legal [of "Energy ''laos'' ''hydro''"]
  by (simp add: legal_name_def legal_char_def)

section \<open>Properties of the routing\<close>

lemma find_prefix_hit:
  "xs = pre @ q # post \<Longrightarrow> P q \<Longrightarrow> find P xs = Some r \<Longrightarrow> r \<in> set pre \<or> r = q"
  by (induction pre arbitrary: xs) (auto split: if_splits)

lemma find_in_set: "find P xs = Some r \<Longrightarrow> r \<in> set xs \<and> P r"
  by (induction xs) (auto split: if_splits)

lemma compile_cleanup_all:
  "compile_path ''/api/cleanup/layers/all'' =
     [Lit '''', Lit ''api'', Lit ''cleanup'', Lit ''layers'', Lit ''all'']"
  by (simp add: compile_path_def)

lemma compile_cleanup_country:
  "compile_path ''/api/cleanup/layers/{country}'' =
     [Lit '''', Lit ''api'', Lit ''cleanup'', Lit ''layers'', Param ''country'']"
  by (simp add: compile_path_def)

lemma compile_layers_list:
  "compile_path ''/api/layers/list'' = [Lit '''', Lit ''api'', Lit ''layers'', Lit ''list'']"
  by (simp add: compile_path_def)

lemma compile_layers_country:
  "compile_path ''/api/layers/{country}'' = [Lit '''', Lit ''api'', Lit ''layers'', Param ''country'']"
  by (simp add: compile_path_def)

lemma match_literals:
  "match_segments (map Lit ls) segs = Some ps \<Longrightarrow> segs = ls"
proof (induction ls arbitrary: segs ps)
  case Nil
  then show ?case by (cases segs) auto
next
  case (Cons l ls)
  then show ?case by (cases segs) (auto split: if_splits)
qed

lemma routes_split_cleanup:
  "routes = take 9 routes @ (POST, ''/api/cleanup/layers/{country}'', ep_cleanup_country_layers) # drop 10 routes"
  by (simp add: routes_def)

lemma routes_split_layers:
  "routes = take 7 routes @ (GET, ''/api/layers/{country}'', ep_get_country_layers) # drop 8 routes"
  by (simp add: routes_def)

lemma cleanup_all_shadowed:
  assumes "full_match m segs (POST, ''/api/cleanup/layers/all'', ep_cleanup_all_layers)"
  shows "full_match m segs (POST, ''/api/cleanup/layers/{country}'', ep_cleanup_country_layers)"
proof -
  from assms obtain ps where
    "match_segments (map Lit ['''', ''api'', ''cleanup'', ''layers'', ''all'']) segs = Some ps"
    and m: "m = POST"
    by (auto simp: full_match_def route_match_def compile_cleanup_all)
  from this(1) have "segs = ['''', ''api'', ''cleanup'', ''layers'', ''all'']"
    by (rule match_literals)
  with m show ?thesis
    by (simp add: full_match_def route_match_def compile_cleanup_country)
qed

lemma list_all_shadowed:
  assumes "full_match m segs (GET, ''/api/layers/list'', ep_list_all_layers)"
  shows "full_match m segs (GET, ''/api/layers/{country}'', ep_get_country_layers)"
proof -
  from assms obtain ps where
    "match_segments (map Lit ['''', ''api'', ''layers'', ''list'']) segs = Some ps"
    and m: "m = GET"
    by (auto simp: full_match_def route_match_def compile_layers_list)
  from this(1) have "segs = ['''', ''api'', ''layers'', ''list'']"
    by (rule match_literals)
  with m show ?thesis
    by (simp add: full_match_def route_match_def compile_layers_country)
qed

lemma find_not_cleanup_all:
  "find (full_match m segs) routes = Some r \<Longrightarrow> snd (snd r) \<noteq> ep_cleanup_all_layers"
proof
  assume f: "find (full_match m segs) routes = Some r" and e: "snd (snd r) = ep_cleanup_all_layers"
  from find_in_set [OF f] have "r \<in> set routes" and fm: "full_match m segs r" by simp_all
  with e have r: "r = (POST, ''/api/cleanup/layers/all'', ep_cleanup_all_layers)"
    by (auto simp: routes_def)
  from fm r have "full_match m segs (POST, ''/api/cleanup/layers/{country}'', ep_cleanup_country_layers)"
    using cleanup_all_shadowed by simp
  from find_prefix_hit [OF routes_split_cleanup this f]
  have "r \<in> set (take 9 routes) \<or> r = (POST, ''/api/cleanup/layers/{country}'', ep_cleanup_country_layers)"
    by simp
  with r show False by (simp add: routes_def)
qed

lemma find_not_list_all:
  "find (full_match m segs) routes = Some r \<Longrightarrow> snd (snd r) \<noteq> ep_list_all_layers"
proof
  assume f: "find (full_match m segs) routes = Some r" and e: "snd (snd r) = ep_list_all_layers"
  from find_in_set [OF f] have "r \<in> set routes" and fm: "full_match m segs r" by simp_all
  with e have r: "r = (GET, ''/api/layers/list'', ep_list_all_layers)"
    by (auto simp: routes_def)
  from fm r have "full_match m segs (GET, ''/api/layers/{country}'', ep_get_country_layers)"
    using list_all_shadowed by simp
  from find_prefix_hit [OF routes_split_layers this f]
  have "r \<in> set (take 7 routes) \<or> r = (GET, ''/api/layers/{country}'', ep_get_country_layers)"
    by simp
  with r show False by (simp add: routes_def)
qed

lemma dispatch_endpoint:
  "dispatch m p = Dispatch e ps \<Longrightarrow>
   \<exists>r. find (full_match m (split_on CHR ''/'' p)) routes = Some r \<and> snd (snd r) = e"
  by (auto simp: dispatch_def Let_def split: option.splits if_splits)

text \<open>
  C4. The route with the country parameter is registered before the literal route in
  both pairs, so a POST to \<^verbatim>\<open>/api/cleanup/layers/all\<close> runs
  \<^verbatim>\<open>cleanup_country_layers\<close> with country \<open>all\<close>, a GET of
  \<^verbatim>\<open>/api/layers/list\<close> runs \<^verbatim>\<open>get_country_layers\<close> with country \<open>list\<close>, and
  no request, whatever its method and path, is dispatched to \<^verbatim>\<open>cleanup_all_layers\<close>
  or to \<^verbatim>\<open>list_all_layers\<close>.
\<close>

theorem literal_routes_shadowed:
  "dispatch POST ''/api/cleanup/layers/all'' = Dispatch ep_cleanup_country_layers [(''country'', ''all'')]
   \<and> dispatch GET ''/api/layers/list'' = Dispatch ep_get_country_layers [(''country'', ''list'')]
   \<and> (\<forall>m p ps. dispatch m p \<noteq> Dispatch ep_cleanup_all_layers ps
               \<and> dispatch m p \<noteq> Dispatch ep_list_all_layers ps)"
proof (intro conjI allI)
  show "dispatch POST ''/api/cleanup/layers/all'' = Dispatch ep_cleanup_country_layers [(''country'', ''all'')]"
    by (simp add: dispatch_def routes_def full_match_def route_match_def compile_path_def)
  show "dispatch GET ''/api/layers/list'' = Dispatch ep_get_country_layers [(''country'', ''list'')]"
    by (simp add: dispatch_def routes_def full_match_def route_match_def compile_path_def)
  fix m p ps
  show "dispatch m p \<noteq> Dispatch ep_cleanup_all_layers ps"
    using dispatch_endpoint find_not_cleanup_all by blast
  show "dispatch m p \<noteq> Dispatch ep_list_all_layers ps"
    using dispatch_endpoint find_not_list_all by blast
qed

section \<open>Properties of the handlers\<close>

lemmas upload_defs =
  upload_climate_data_def upload_giri_data_def upload_energy_data_def upload_boundary_data_def
  merge_climate_def merge_giri_def merge_energy_def merge_boundary_def
  publish_raster_def publish_vector_def publish_layer_def register_layer_def
  cache_layer_info_def Let_def name_defs

lemma upload_not_processed:
  "\<not> processed_ok req \<Longrightarrow> upload req now s = (Inl HTTP500, s)"
  by (cases req) (auto simp: upload_defs split: option.splits)

lemma upload_db_down:
  "\<not> db_available (db s) \<Longrightarrow> upload req now s = (Inl HTTP500, s)"
  by (cases req) (auto simp: upload_defs split: option.splits)

lemma upload_country_entries:
  "country_entries (spatial_cache (snd (upload req now s))) = country_entries (spatial_cache s)"
  by (cases req) (auto simp: upload_defs split: option.splits)

lemma upload_readiness:
  "upload req now (s\<lparr>readiness := r\<rparr>) =
     (fst (upload req now s), (snd (upload req now s))\<lparr>readiness := r\<rparr>)"
  by (cases req) (auto simp: upload_defs split: option.splits)

lemma upload_publish_calls:
  "processed_ok req \<Longrightarrow> db_available (db s) \<Longrightarrow>
   publish_calls (geoserver (snd (upload req now s))) =
     publish_calls (geoserver s) @ [encode (request_identity req)]"
  by (cases req) (auto simp: upload_defs split: option.splits)

lemma upload_record_count:
  "processed_ok req \<Longrightarrow> db_available (db s) \<Longrightarrow>
   record_count (db (snd (upload req now s))) = Suc (record_count (db s))"
  by (cases req) (auto simp: upload_defs record_count_def split: option.splits)

lemma upload_success_iff:
  "processed_ok req \<Longrightarrow> db_available (db s) \<Longrightarrow>
   (\<exists>r. fst (upload req now s) = Inr r) \<longleftrightarrow>
     publish_fault (geoserver s) (encode (request_identity req)) = None"
  by (cases req) (auto simp: upload_defs split: option.splits)

lemma upload_success_registers:
  "fst (upload req now s) = Inr r \<Longrightarrow>
   up_layer_name r = encode (request_identity req) \<and>
   (\<exists>path. registrations (geoserver (snd (upload req now s))) =
      filter (\<lambda>x. externalName x \<noteq> encode (request_identity req)) (registrations (geoserver s))
      @ [\<lparr>externalName = encode (request_identity req), identity = request_identity req,
           createdAt = now, sourceArtifactPath = path\<rparr>])"
  by (cases req) (auto simp: upload_defs split: option.splits)

lemma upload_env_unchanged:
  "publish_fault (geoserver (snd (upload req now s))) = publish_fault (geoserver s)
   \<and> db_available (db (snd (upload req now s))) = db_available (db s)"
  by (cases req) (auto simp: upload_defs split: option.splits)


lemma upload_success_conditions:
  assumes "fst (upload req now s) = Inr r"
  shows "processed_ok req \<and> db_available (db s)
         \<and> publish_fault (geoserver s) (encode (request_identity req)) = None"
proof -
  have p: "processed_ok req"
    using assms upload_not_processed [of req now s] by (cases "processed_ok req") auto
  have d: "db_available (db s)"
    using assms upload_db_down [of s req now] by (cases "db_available (db s)") auto
  from upload_success_iff [OF p d, of now] assms p d show ?thesis by blast
qed

lemmas example_defs = example_form_def example_system_def after_first_read_def after_publish_def
  unreachable_system_def

lemmas read_defs = get_country_layers_def cached_country_layers_def cache_get_def
  cache_country_layers_def assemble_def climate_item_of_def giri_item_of_def energy_item_of_def
  boundary_item_of_def get_wms_url_def get_wfs_url_def

text \<open>
  C2 (as stated, refuted). The claim says that a successful publish invalidates the
  cache entry of the country before it returns, so that a read right after it is never
  served the payload from before the publish. The layers of Laos are read at time 0
  (nothing yet, and this payload is cached for an hour), the climate layer is uploaded
  with success at time 10, and the read at time 11 is answered with the cached payload
  of time 0, without the layer that the store now holds.
\<close>

theorem stale_payload_after_publish:
  "fst (get_country_layers ''laos'' 0 example_system) =
     Inr \<lparr>cl_country = ''laos'', cl_climate = [], cl_giri = [], cl_energy = [], cl_boundaries = []\<rparr>
   \<and> fst (upload (UploadClimate example_form) 10 after_first_read) =
     Inr \<lparr>up_layer_name = ''laos_temp_rcp45'',
          up_statistics = Some \<lparr>stat_min = ''1'', stat_max = ''9'', stat_mean = ''5''\<rparr>,
          up_feature_count = None, up_bounds = None,
          up_message = ''Climate data uploaded and processed successfully''\<rparr>
   \<and> fst (get_country_layers ''laos'' 11 after_publish) =
     Inr \<lparr>cl_country = ''laos'', cl_climate = [], cl_giri = [], cl_energy = [], cl_boundaries = []\<rparr>
   \<and> map ci_layer_name (cl_climate (assemble ''laos'' (db after_publish))) = [''laos_temp_rcp45'']"
  by (simp add: example_defs read_defs upload_defs)

text \<open>
  C2 (amended). No upload, successful or not, touches the country-scoped cache entries:
  a successful publish only stores the layer info under the layer name. A read of the
  country after the publish, while the entry from before the publish is still within its
  time to live, is answered with that entry's payload.
\<close>

theorem publish_keeps_country_entry:
  assumes "upload req now s = (res, s')"
    and "cached_country_layers c t (spatial_cache s) = Some p"
  shows "country_entries (spatial_cache s') = country_entries (spatial_cache s)
         \<and> get_country_layers c t s' = (Inr p, s')"
proof -
  from assms(1) have s': "s' = snd (upload req now s)" by simp
  have ce: "country_entries (spatial_cache s') = country_entries (spatial_cache s)"
    unfolding s' by (rule upload_country_entries)
  with assms(2) have "cached_country_layers c t (spatial_cache s') = Some p"
    by (simp add: cached_country_layers_def)
  then have "get_country_layers c t s' = (Inr p, s')"
    by (simp add: get_country_layers_def)
  with ce show ?thesis by simp
qed

theorem publish_keeps_country_entry_witness:
  "cached_country_layers ''laos'' 11 (spatial_cache after_first_read) =
     Some \<lparr>cl_country = ''laos'', cl_climate = [], cl_giri = [], cl_energy = [], cl_boundaries = []\<rparr>
   \<and> get_country_layers ''laos'' 11 after_publish =
     (Inr \<lparr>cl_country = ''laos'', cl_climate = [], cl_giri = [], cl_energy = [], cl_boundaries = []\<rparr>,
      after_publish)"
proof -
  have h1: "upload (UploadClimate example_form) 10 after_first_read =
      (fst (upload (UploadClimate example_form) 10 after_first_read), after_publish)"
    by (simp add: after_publish_def)
  have h2: "cached_country_layers ''laos'' 11 (spatial_cache after_first_read) =
     Some \<lparr>cl_country = ''laos'', cl_climate = [], cl_giri = [], cl_energy = [], cl_boundaries = []\<rparr>"
    by (simp add: example_defs read_defs Let_def)
  from publish_keeps_country_entry [OF h1 h2] h2 show ?thesis by simp
qed

text \<open>
  C5 (as stated, refuted). The claim says that a publish request arriving while the
  readiness state is not \<open>Ready\<close> fails with \<open>ServiceNotReady\<close> and does not call
  the publish client. In the fresh system the state is \<open>NotStarted\<close>; the climate
  upload calls the publish client, registers the layer and answers with success.
\<close>

theorem publish_while_not_ready:
  "readiness example_system = NotStarted
   \<and> fst (upload (UploadClimate example_form) 10 example_system) =
     Inr \<lparr>up_layer_name = ''laos_temp_rcp45'',
          up_statistics = Some \<lparr>stat_min = ''1'', stat_max = ''9'', stat_mean = ''5''\<rparr>,
          up_feature_count = None, up_bounds = None,
          up_message = ''Climate data uploaded and processed successfully''\<rparr>
   \<and> publish_calls (geoserver (snd (upload (UploadClimate example_form) 10 example_system))) =
     [''laos_temp_rcp45'']
   \<and> map externalName (registrations (geoserver (snd (upload (UploadClimate example_form) 10 example_system)))) =
     [''laos_temp_rcp45'']"
  by (simp add: example_defs upload_defs)

text \<open>
  C5 (amended). The upload handlers do not read the readiness state: the answer and the
  effects of a request are the same in every readiness state. Whenever file processing
  and the commit to the store succeed, the handler calls the publish operation of the
  client, and the request succeeds when the map service accepts that call.
\<close>

theorem upload_ignores_readiness:
  "upload req now (s\<lparr>readiness := r\<rparr>) =
     (fst (upload req now s), (snd (upload req now s))\<lparr>readiness := r\<rparr>)
   \<and> (processed_ok req \<and> db_available (db s) \<longrightarrow>
        publish_calls (geoserver (snd (upload req now (s\<lparr>readiness := r\<rparr>)))) =
          publish_calls (geoserver s) @ [encode (request_identity req)])
   \<and> (processed_ok req \<and> db_available (db s)
        \<and> publish_fault (geoserver s) (encode (request_identity req)) = None \<longrightarrow>
        (\<exists>resp. fst (upload req now (s\<lparr>readiness := r\<rparr>)) = Inr resp))"
proof (intro conjI impI)
  show "upload req now (s\<lparr>readiness := r\<rparr>) =
     (fst (upload req now s), (snd (upload req now s))\<lparr>readiness := r\<rparr>)"
    by (rule upload_readiness)
next
  assume "processed_ok req \<and> db_available (db s)"
  then show "publish_calls (geoserver (snd (upload req now (s\<lparr>readiness := r\<rparr>)))) =
          publish_calls (geoserver s) @ [encode (request_identity req)]"
    using upload_publish_calls [of req "s\<lparr>readiness := r\<rparr>" now] by simp
next
  assume "processed_ok req \<and> db_available (db s)
        \<and> publish_fault (geoserver s) (encode (request_identity req)) = None"
  then show "\<exists>resp. fst (upload req now (s\<lparr>readiness := r\<rparr>)) = Inr resp"
    using upload_success_iff [of req "s\<lparr>readiness := r\<rparr>" now] by simp
qed

theorem upload_ignores_readiness_witness:
  "processed_ok (UploadClimate example_form) \<and> db_available (db example_system)
   \<and> publish_fault (geoserver example_system)
       (encode (request_identity (UploadClimate example_form))) = None
   \<and> publish_calls (geoserver (snd (upload (UploadClimate example_form) 10
         (example_system\<lparr>readiness := Failed\<rparr>)))) = [''laos_temp_rcp45'']
   \<and> (\<exists>resp. fst (upload (UploadClimate example_form) 10
         (example_system\<lparr>readiness := Failed\<rparr>)) = Inr resp)"
proof -
  have h: "processed_ok (UploadClimate example_form) \<and> db_available (db example_system)
      \<and> publish_fault (geoserver example_system)
          (encode (request_identity (UploadClimate example_form))) = None"
    by (simp add: example_defs)
  have c: "publish_calls (geoserver example_system) = []"
    and n: "encode (request_identity (UploadClimate example_form)) = ''laos_temp_rcp45''"
    by (simp_all add: example_defs name_defs)
  from upload_ignores_readiness
    [where req = "UploadClimate example_form" and now = 10 and s = example_system and r = Failed,
     THEN conjunct2]
    h c n
  show ?thesis by simp
qed

text \<open>
  C6 (as stated, refuted). The claim says that after publishing twice with the same
  identity and artifact the map service holds exactly one registration for that
  identity. The service already holds the climate layer of Laos under the name
  \<open>laos_temp_rcp45_t1\<close>; both uploads succeed with the name \<open>laos_temp_rcp45\<close>, and
  afterwards the service holds two registrations of the identity, the earlier one and
  the one just published.
\<close>

theorem two_registrations_after_publish_twice:
  "map externalName (registrations (geoserver legacy_system)) = [''laos_temp_rcp45_t1'']
   \<and> fst (upload (UploadClimate example_form) 10 legacy_system) =
       Inr \<lparr>up_layer_name = ''laos_temp_rcp45'',
            up_statistics = Some \<lparr>stat_min = ''1'', stat_max = ''9'', stat_mean = ''5''\<rparr>,
            up_feature_count = None, up_bounds = None,
            up_message = ''Climate data uploaded and processed successfully''\<rparr>
   \<and> fst (upload (UploadClimate example_form) 20
            (snd (upload (UploadClimate example_form) 10 legacy_system))) =
       Inr \<lparr>up_layer_name = ''laos_temp_rcp45'',
            up_statistics = Some \<lparr>stat_min = ''1'', stat_max = ''9'', stat_mean = ''5''\<rparr>,
            up_feature_count = None, up_bounds = None,
            up_message = ''Climate data uploaded and processed successfully''\<rparr>
   \<and> map externalName (registrations (geoserver (snd (upload (UploadClimate example_form) 20
              (snd (upload (UploadClimate example_form) 10 legacy_system))))))
       = [''laos_temp_rcp45_t1'', ''laos_temp_rcp45'']
   \<and> map identity (registrations (geoserver (snd (upload (UploadClimate example_form) 20
              (snd (upload (UploadClimate example_form) 10 legacy_system))))))
       = [Climate ''laos'' ''temp'' ''rcp45'', Climate ''laos'' ''temp'' ''rcp45'']"
  by (simp add: legacy_system_def registration_def example_defs upload_defs)

text \<open>
  C6 (amended). Publishing twice with the same request: when the first upload succeeds,
  so does the second; both answer with the same layer name, the name the identity
  encodes to; afterwards the map service holds exactly one registration under that name
  and the second call has added no registration for the identity. The identity has
  exactly one registration afterwards provided that, before the first call, the service
  held no registration of the identity under another name.
\<close>

theorem publish_twice_one_registration:
  assumes "upload req now s = (Inr r1, s1)"
  shows "\<exists>r2 s2. upload req now' s1 = (Inr r2, s2)
     \<and> up_layer_name r2 = up_layer_name r1
     \<and> up_layer_name r1 = encode (request_identity req)
     \<and> length (filter (\<lambda>x. externalName x = encode (request_identity req))
                  (registrations (geoserver s2))) = 1
     \<and> length (filter (\<lambda>x. identity x = request_identity req) (registrations (geoserver s2)))
         = length (filter (\<lambda>x. identity x = request_identity req) (registrations (geoserver s1)))
     \<and> ((\<forall>x \<in> set (registrations (geoserver s)).
            identity x = request_identity req \<longrightarrow> externalName x = encode (request_identity req))
          \<longrightarrow> length (filter (\<lambda>x. identity x = request_identity req)
                        (registrations (geoserver s2))) = 1)"
proof -
  define n where "n = encode (request_identity req)"
  define i where "i = request_identity req"
  from assms have f1: "fst (upload req now s) = Inr r1" and s1: "s1 = snd (upload req now s)"
    by simp_all
  from upload_success_conditions [OF f1]
  have ok: "processed_ok req" "db_available (db s)" "publish_fault (geoserver s) n = None"
    by (simp_all add: n_def)
  from upload_env_unchanged [of req now s] ok s1
  have ok1: "db_available (db s1)" "publish_fault (geoserver s1) n = None"
    by simp_all
  from upload_success_iff [OF ok(1) ok1(1), of now'] ok1(2)
  obtain r2 where f2: "fst (upload req now' s1) = Inr r2"
    by (auto simp: n_def)
  define s2 where "s2 = snd (upload req now' s1)"
  from f2 have u2: "upload req now' s1 = (Inr r2, s2)"
    by (simp add: s2_def prod_eq_iff)
  from upload_success_registers [OF f1] obtain p1 where
    n1: "up_layer_name r1 = n" and
    regs1: "registrations (geoserver s1) =
      filter (\<lambda>x. externalName x \<noteq> n) (registrations (geoserver s))
      @ [\<lparr>externalName = n, identity = i, createdAt = now, sourceArtifactPath = p1\<rparr>]"
    by (auto simp: n_def i_def s1)
  from upload_success_registers [OF f2] obtain p2 where
    n2: "up_layer_name r2 = n" and
    regs2: "registrations (geoserver s2) =
      filter (\<lambda>x. externalName x \<noteq> n) (registrations (geoserver s1))
      @ [\<lparr>externalName = n, identity = i, createdAt = now', sourceArtifactPath = p2\<rparr>]"
    by (auto simp: n_def i_def s2_def)
  have regs2': "registrations (geoserver s2) =
      filter (\<lambda>x. externalName x \<noteq> n) (registrations (geoserver s))
      @ [\<lparr>externalName = n, identity = i, createdAt = now', sourceArtifactPath = p2\<rparr>]"
    by (simp add: regs2 regs1)
  have by_name: "filter (\<lambda>x. externalName x = n) (registrations (geoserver s2)) =
      [\<lparr>externalName = n, identity = i, createdAt = now', sourceArtifactPath = p2\<rparr>]"
    by (simp add: regs2')
  have same: "length (filter (\<lambda>x. identity x = i) (registrations (geoserver s2)))
         = length (filter (\<lambda>x. identity x = i) (registrations (geoserver s1)))"
    by (simp add: regs2' regs1)
  have one: "length (filter (\<lambda>x. identity x = i) (registrations (geoserver s2))) = 1"
    if "\<forall>x \<in> set (registrations (geoserver s)). identity x = i \<longrightarrow> externalName x = n"
  proof -
    from that have "filter (\<lambda>x. identity x = i)
        (filter (\<lambda>x. externalName x \<noteq> n) (registrations (geoserver s))) = []"
      by (auto simp: filter_empty_conv)
    then show ?thesis by (simp add: regs2')
  qed
  from u2 n1 n2 by_name same one show ?thesis
    unfolding n_def i_def by auto
qed

theorem publish_twice_one_registration_witness:
  "map externalName (registrations (geoserver published_system)) =
     [''laos_temp_rcp45'', ''laos_boundary'']
   \<and> map identity (registrations (geoserver published_system)) =
     [Climate ''laos'' ''temp'' ''rcp45'', Boundary ''laos'']
   \<and> upload (UploadClimate example_form) 10 published_system =
     (Inr \<lparr>up_layer_name = ''laos_temp_rcp45'',
           up_statistics = Some \<lparr>stat_min = ''1'', stat_max = ''9'', stat_mean = ''5''\<rparr>,
           up_feature_count = None, up_bounds = None,
           up_message = ''Climate data uploaded and processed successfully''\<rparr>,
      snd (upload (UploadClimate example_form) 10 published_system))
   \<and> (\<exists>r2 s2. upload (UploadClimate example_form) 20
          (snd (upload (UploadClimate example_form) 10 published_system)) = (Inr r2, s2)
        \<and> up_layer_name r2 = ''laos_temp_rcp45''
        \<and> length (filter (\<lambda>x. externalName x = ''laos_temp_rcp45'')
                     (registrations (geoserver s2))) = 1
        \<and> length (filter (\<lambda>x. identity x = Climate ''laos'' ''temp'' ''rcp45'')
                     (registrations (geoserver s2))) = 1)"
proof -
  have h: "upload (UploadClimate example_form) 10 published_system =
     (Inr \<lparr>up_layer_name = ''laos_temp_rcp45'',
           up_statistics = Some \<lparr>stat_min = ''1'', stat_max = ''9'', stat_mean = ''5''\<rparr>,
           up_feature_count = None, up_bounds = None,
           up_message = ''Climate data uploaded and processed successfully''\<rparr>,
      snd (upload (UploadClimate example_form) 10 published_system))"
    by (simp add: published_system_def registration_def example_defs upload_defs)
  have regs: "registrations (geoserver published_system) =
      [registration ''laos_temp_rcp45'' (Climate ''laos'' ''temp'' ''rcp45'') 20240101,
       registration ''laos_boundary'' (Boundary ''laos'') 20240101]"
    by (simp add: published_system_def)
  have names: "map externalName (registrations (geoserver published_system)) =
       [''laos_temp_rcp45'', ''laos_boundary'']"
    and ids: "map identity (registrations (geoserver published_system)) =
       [Climate ''laos'' ''temp'' ''rcp45'', Boundary ''laos'']"
    by (simp_all add: regs registration_def)
  have n: "encode (request_identity (UploadClimate example_form)) = ''laos_temp_rcp45''"
    and i: "request_identity (UploadClimate example_form) = Climate ''laos'' ''temp'' ''rcp45''"
    by (simp_all add: example_defs name_defs)
  have before: "\<forall>x \<in> set (registrations (geoserver published_system)).
      identity x = request_identity (UploadClimate example_form) \<longrightarrow>
      externalName x = encode (request_identity (UploadClimate example_form))"
    by (simp add: regs registration_def example_form_def name_defs)
  from publish_twice_one_registration [OF h, of 20] before obtain r2 s2 where
    "upload (UploadClimate example_form) 20
          (snd (upload (UploadClimate example_form) 10 published_system)) = (Inr r2, s2)"
    "up_layer_name r2 = ''laos_temp_rcp45''"
    "length (filter (\<lambda>x. externalName x = ''laos_temp_rcp45'')
                     (registrations (geoserver s2))) = 1"
    "length (filter (\<lambda>x. identity x = Climate ''laos'' ''temp'' ''rcp45'')
                     (registrations (geoserver s2))) = 1"
    unfolding n i by auto
  then have "\<exists>r2 s2. upload (UploadClimate example_form) 20
          (snd (upload (UploadClimate example_form) 10 published_system)) = (Inr r2, s2)
        \<and> up_layer_name r2 = ''laos_temp_rcp45''
        \<and> length (filter (\<lambda>x. externalName x = ''laos_temp_rcp45'')
                     (registrations (geoserver s2))) = 1
        \<and> length (filter (\<lambda>x. identity x = Climate ''laos'' ''temp'' ''rcp45'')
                     (registrations (geoserver s2))) = 1"
    by blast
  with names ids h show ?thesis by (intro conjI) assumption+
qed

text \<open>
  C8 (as stated, refuted). The claim says that a metadata record is written only when
  the publish against the map service succeeds, and that the store is unchanged on
  error. With an unreachable map service the climate upload fails with status 500, and
  the store, empty before, holds the record of the upload.
\<close>

theorem record_kept_when_publish_fails:
  "fst (upload (UploadClimate example_form) 10 unreachable_system) = Inl HTTP500
   \<and> record_count (db unreachable_system) = 0
   \<and> record_count (db (snd (upload (UploadClimate example_form) 10 unreachable_system))) = 1
   \<and> map climate_file_path (climate_rows (db (snd (upload (UploadClimate example_form) 10 unreachable_system)))) = [''/path/a.tif'']"
  by (simp add: example_defs upload_defs record_count_def)

text \<open>
  C8 (amended). For every upload request exactly one metadata record is committed if and
  only if file processing succeeds and the store is available; the commit comes before
  the publish call and stays whether the publish succeeds or fails. When file processing
  fails or the store is unavailable, the request fails with status 500 and nothing is
  changed.
\<close>

theorem record_written_before_publish:
  "record_count (db (snd (upload req now s))) =
     (if processed_ok req \<and> db_available (db s) then Suc (record_count (db s))
      else record_count (db s))
   \<and> (\<not> (processed_ok req \<and> db_available (db s)) \<longrightarrow>
        upload req now s = (Inl HTTP500, s))"
  using upload_record_count [of req s now] upload_not_processed [of req now s]
    upload_db_down [of s req now]
  by auto

theorem record_written_before_publish_witness:
  "processed_ok (UploadClimate example_form) \<and> db_available (db unreachable_system)
   \<and> record_count (db (snd (upload (UploadClimate example_form) 10 unreachable_system))) =
       Suc (record_count (db unreachable_system))
   \<and> \<not> db_available (db (example_system\<lparr>db := (db example_system)\<lparr>db_available := False\<rparr>\<rparr>))
   \<and> upload (UploadClimate example_form) 10
        (example_system\<lparr>db := (db example_system)\<lparr>db_available := False\<rparr>\<rparr>) =
       (Inl HTTP500, example_system\<lparr>db := (db example_system)\<lparr>db_available := False\<rparr>\<rparr>)"
proof -
  have h: "processed_ok (UploadClimate example_form) \<and> db_available (db unreachable_system)"
    by (simp add: example_defs)
  have g: "\<not> db_available (db (example_system\<lparr>db := (db example_system)\<lparr>db_available := False\<rparr>\<rparr>))"
    by simp
  from record_written_before_publish [of "UploadClimate example_form" 10 unreachable_system]
    record_written_before_publish [of "UploadClimate example_form" 10
      "example_system\<lparr>db := (db example_system)\<lparr>db_available := False\<rparr>\<rparr>"] h g
  show ?thesis by simp
qed

text \<open>
  C9. \<^verbatim>\<open>get_country_layers\<close> reads through the cache. When the cache holds a live
  payload for the country, that payload is the answer and the state is unchanged: the
  store is not queried. On a miss (with the store available) the answer is built from
  the four tables: its climate, hazard, energy and boundary lists hold one item for each
  row of that country in the table, in order, with the columns of the row, the layer
  name composed from them and the service URL of that name; the four queries are the
  ones logged, and this payload is stored in the cache under the country.
\<close>

theorem get_country_layers_read_through:
  "(cached_country_layers country now (spatial_cache s) = Some p \<longrightarrow>
      get_country_layers country now s = (Inr p, s))
   \<and> (cached_country_layers country now (spatial_cache s) = None \<and> db_available (db s) \<longrightarrow>
      (\<exists>result.
         fst (get_country_layers country now s) = Inr result
         \<and> cl_country result = country
         \<and> cl_climate result =
             map (\<lambda>layer.
                    \<lparr>ci_id = climate_id layer, ci_variable = climate_variable layer,
                     ci_scenario = climate_scenario layer,
                     ci_year_range = climate_year_range layer,
                     ci_season = climate_season layer,
                     ci_statistics =
                       \<lparr>stat_min = climate_min_value layer, stat_max = climate_max_value layer,
                        stat_mean = climate_mean_value layer\<rparr>,
                     ci_classification = climate_classification layer,
                     ci_layer_name =
                       country @ ''_'' @ climate_variable layer @ ''_'' @ climate_scenario layer,
                     ci_wms_url =
                       get_wms_url
                         (country @ ''_'' @ climate_variable layer @ ''_''
                            @ climate_scenario layer)\<rparr>)
               (filter (\<lambda>layer. climate_country layer = country) (climate_rows (db s)))
         \<and> cl_giri result =
             map (\<lambda>layer.
                    \<lparr>gi_id = giri_id layer, gi_variable = giri_variable layer,
                     gi_scenario = giri_scenario layer,
                     gi_statistics =
                       \<lparr>stat_min = giri_min_value layer, stat_max = giri_max_value layer,
                        stat_mean = giri_mean_value layer\<rparr>,
                     gi_classification = giri_classification layer,
                     gi_layer_name =
                       country @ ''_'' @ giri_variable layer @ ''_'' @ giri_scenario layer
                         @ ''_giri'',
                     gi_wms_url =
                       get_wms_url
                         (country @ ''_'' @ giri_variable layer @ ''_'' @ giri_scenario layer
                            @ ''_giri'')\<rparr>)
               (filter (\<lambda>layer. giri_country layer = country) (giri_rows (db s)))
         \<and> cl_energy result =
             map (\<lambda>layer.
                    \<lparr>ei_id = energy_id layer,
                     ei_infrastructure_type = energy_infrastructure_type layer,
                     ei_capacity_attribute = energy_capacity_attribute layer,
                     ei_icon_path = energy_icon_path layer,
                     ei_layer_name =
                       country @ ''_'' @ energy_infrastructure_type layer @ ''_energy'',
                     ei_wfs_url =
                       get_wfs_url
                         (country @ ''_'' @ energy_infrastructure_type layer @ ''_energy'')\<rparr>)
               (filter (\<lambda>layer. energy_country layer = country) (energy_rows (db s)))
         \<and> cl_boundaries result =
             map (\<lambda>layer.
                    \<lparr>bi_id = boundary_id layer,
                     bi_hover_attribute = boundary_hover_attribute layer,
                     bi_feature_count = boundary_feature_count layer,
                     bi_bounds = boundary_bounds layer,
                     bi_layer_name = country @ ''_boundary'',
                     bi_wfs_url = get_wfs_url (country @ ''_boundary'')\<rparr>)
               (filter (\<lambda>layer. boundary_country layer = country) (boundary_rows (db s)))
         \<and> query_log (db (snd (get_country_layers country now s))) =
             query_log (db s) @ [(climate_table, country), (giri_table, country),
                                 (energy_table, country), (boundary_table, country)]
         \<and> country_entries (spatial_cache (snd (get_country_layers country now s))) country =
             Some \<lparr>payload = result, storedAt = now, ttl = cache_ttl (spatial_cache s)\<rparr>))"
proof (intro conjI impI)
  assume "cached_country_layers country now (spatial_cache s) = Some p"
  then show "get_country_layers country now s = (Inr p, s)"
    by (simp add: get_country_layers_def)
next
  assume miss: "cached_country_layers country now (spatial_cache s) = None \<and> db_available (db s)"
  have run: "fst (get_country_layers country now s) = Inr (assemble country (db s))"
    using miss by (simp add: get_country_layers_def Let_def)
  have log: "query_log (db (snd (get_country_layers country now s))) =
             query_log (db s) @ [(climate_table, country), (giri_table, country),
                                 (energy_table, country), (boundary_table, country)]"
    using miss by (simp add: get_country_layers_def Let_def)
  have stored: "country_entries (spatial_cache (snd (get_country_layers country now s))) country =
      Some \<lparr>payload = assemble country (db s), storedAt = now, ttl = cache_ttl (spatial_cache s)\<rparr>"
    using miss by (simp add: get_country_layers_def cache_country_layers_def Let_def)
  have c: "cl_country (assemble country (db s)) = country"
    by (simp add: assemble_def)
  have cl: "cl_climate (assemble country (db s)) =
     map (\<lambda>layer.
                    \<lparr>ci_id = climate_id layer, ci_variable = climate_variable layer,
                     ci_scenario = climate_scenario layer,
                     ci_year_range = climate_year_range layer,
                     ci_season = climate_season layer,
                     ci_statistics =
                       \<lparr>stat_min = climate_min_value layer, stat_max = climate_max_value layer,
                        stat_mean = climate_mean_value layer\<rparr>,
                     ci_classification = climate_classification layer,
                     ci_layer_name =
                       country @ ''_'' @ climate_variable layer @ ''_'' @ climate_scenario layer,
                     ci_wms_url =
                       get_wms_url
                         (country @ ''_'' @ climate_variable layer @ ''_''
                            @ climate_scenario layer)\<rparr>)
               (filter (\<lambda>layer. climate_country layer = country) (climate_rows (db s)))"
    by (simp add: assemble_def climate_item_of_def climate_layer_name_def)
  have gi: "cl_giri (assemble country (db s)) =
     map (\<lambda>layer.
                    \<lparr>gi_id = giri_id layer, gi_variable = giri_variable layer,
                     gi_scenario = giri_scenario layer,
                     gi_statistics =
                       \<lparr>stat_min = giri_min_value layer, stat_max = giri_max_value layer,
                        stat_mean = giri_mean_value layer\<rparr>,
                     gi_classification = giri_classification layer,
                     gi_layer_name =
                       country @ ''_'' @ giri_variable layer @ ''_'' @ giri_scenario layer
                         @ ''_giri'',
                     gi_wms_url =
                       get_wms_url
                         (country @ ''_'' @ giri_variable layer @ ''_'' @ giri_scenario layer
                            @ ''_giri'')\<rparr>)
               (filter (\<lambda>layer. giri_country layer = country) (giri_rows (db s)))"
    by (simp add: assemble_def giri_item_of_def giri_layer_name_def)
  have en: "cl_energy (assemble country (db s)) =
     map (\<lambda>layer.
                    \<lparr>ei_id = energy_id layer,
                     ei_infrastructure_type = energy_infrastructure_type layer,
                     ei_capacity_attribute = energy_capacity_attribute layer,
                     ei_icon_path = energy_icon_path layer,
                     ei_layer_name =
                       country @ ''_'' @ energy_infrastructure_type layer @ ''_energy'',
                     ei_wfs_url =
                       get_wfs_url
                         (country @ ''_'' @ energy_infrastructure_type layer @ ''_energy'')\<rparr>)
               (filter (\<lambda>layer. energy_country layer = country) (energy_rows (db s)))"
    by (simp add: assemble_def energy_item_of_def energy_layer_name_def)
  have bo: "cl_boundaries (assemble country (db s)) =
     map (\<lambda>layer.
                    \<lparr>bi_id = boundary_id layer,
                     bi_hover_attribute = boundary_hover_attribute layer,
                     bi_feature_count = boundary_feature_count layer,
                     bi_bounds = boundary_bounds layer,
                     bi_layer_name = country @ ''_boundary'',
                     bi_wfs_url = get_wfs_url (country @ ''_boundary'')\<rparr>)
               (filter (\<lambda>layer. boundary_country layer = country) (boundary_rows (db s)))"
    by (simp add: assemble_def boundary_item_of_def boundary_layer_name_def)
  from run c cl gi en bo log stored
  show "\<exists>result.
         fst (get_country_layers country now s) = Inr result
         \<and> cl_country result = country
         \<and> cl_climate result =
             map (\<lambda>layer.
                    \<lparr>ci_id = climate_id layer, ci_variable = climate_variable layer,
                     ci_scenario = climate_scenario layer,
                     ci_year_range = climate_year_range layer,
                     ci_season = climate_season layer,
                     ci_statistics =
                       \<lparr>stat_min = climate_min_value layer, stat_max = climate_max_value layer,
                        stat_mean = climate_mean_value layer\<rparr>,
                     ci_classification = climate_classification layer,
                     ci_layer_name =
                       country @ ''_'' @ climate_variable layer @ ''_'' @ climate_scenario layer,
                     ci_wms_url =
                       get_wms_url
                         (country @ ''_'' @ climate_variable layer @ ''_''
                            @ climate_scenario layer)\<rparr>)
               (filter (\<lambda>layer. climate_country layer = country) (climate_rows (db s)))
         \<and> cl_giri result =
             map (\<lambda>layer.
                    \<lparr>gi_id = giri_id layer, gi_variable = giri_variable layer,
                     gi_scenario = giri_scenario layer,
                     gi_statistics =
                       \<lparr>stat_min = giri_min_value layer, stat_max = giri_max_value layer,
                        stat_mean = giri_mean_value layer\<rparr>,
                     gi_classification = giri_classification layer,
                     gi_layer_name =
                       country @ ''_'' @ giri_variable layer @ ''_'' @ giri_scenario layer
                         @ ''_giri'',
                     gi_wms_url =
                       get_wms_url
                         (country @ ''_'' @ giri_variable layer @ ''_'' @ giri_scenario layer
                            @ ''_giri'')\<rparr>)
               (filter (\<lambda>layer. giri_country layer = country) (giri_rows (db s)))
         \<and> cl_energy result =
             map (\<lambda>layer.
                    \<lparr>ei_id = energy_id layer,
                     ei_infrastructure_type = energy_infrastructure_type layer,
                     ei_capacity_attribute = energy_capacity_attribute layer,
                     ei_icon_path = energy_icon_path layer,
                     ei_layer_name =
                       country @ ''_'' @ energy_infrastructure_type layer @ ''_energy'',
                     ei_wfs_url =
                       get_wfs_url
                         (country @ ''_'' @ energy_infrastructure_type layer @ ''_energy'')\<rparr>)
               (filter (\<lambda>layer. energy_country layer = country) (energy_rows (db s)))
         \<and> cl_boundaries result =
             map (\<lambda>layer.
                    \<lparr>bi_id = boundary_id layer,
                     bi_hover_attribute = boundary_hover_attribute layer,
                     bi_feature_count = boundary_feature_count layer,
                     bi_bounds = boundary_bounds layer,
                     bi_layer_name = country @ ''_boundary'',
                     bi_wfs_url = get_wfs_url (country @ ''_boundary'')\<rparr>)
               (filter (\<lambda>layer. boundary_country layer = country) (boundary_rows (db s)))
         \<and> query_log (db (snd (get_country_layers country now s))) =
             query_log (db s) @ [(climate_table, country), (giri_table, country),
                                 (energy_table, country), (boundary_table, country)]
         \<and> country_entries (spatial_cache (snd (get_country_layers country now s))) country =
             Some \<lparr>payload = result, storedAt = now, ttl = cache_ttl (spatial_cache s)\<rparr>"
    by (intro exI [of _ "assemble country (db s)"] conjI) assumption+
qed

theorem get_country_layers_read_through_witness:
  "cached_country_layers ''laos'' 0 (spatial_cache stocked_system) = None
   \<and> db_available (db stocked_system)
   \<and> fst (get_country_layers ''laos'' 0 stocked_system) = Inr laos_payload
   \<and> query_log (db (snd (get_country_layers ''laos'' 0 stocked_system))) =
       [(climate_table, ''laos''), (giri_table, ''laos''),
        (energy_table, ''laos''), (boundary_table, ''laos'')]
   \<and> cached_country_layers ''laos'' 5
         (spatial_cache (snd (get_country_layers ''laos'' 0 stocked_system))) = Some laos_payload
   \<and> get_country_layers ''laos'' 5 (snd (get_country_layers ''laos'' 0 stocked_system)) =
       (Inr laos_payload, snd (get_country_layers ''laos'' 0 stocked_system))"
proof -
  let ?s1 = "snd (get_country_layers ''laos'' 0 stocked_system)"
  have h1: "cached_country_layers ''laos'' 0 (spatial_cache stocked_system) = None
      \<and> db_available (db stocked_system)"
    by (simp add: stocked_system_def example_system_def cached_country_layers_def cache_get_def)
  have ttl: "cache_ttl (spatial_cache stocked_system) = 3600"
    and log0: "query_log (db stocked_system) = []"
    by (simp_all add: stocked_system_def example_system_def)
  have ex: "\<exists>result.
      fst (get_country_layers ''laos'' 0 stocked_system) = Inr result
      \<and> cl_country result = ''laos''
      \<and> cl_climate result = cl_climate laos_payload
      \<and> cl_giri result = cl_giri laos_payload
      \<and> cl_energy result = cl_energy laos_payload
      \<and> cl_boundaries result = cl_boundaries laos_payload
      \<and> query_log (db ?s1) =
          [(climate_table, ''laos''), (giri_table, ''laos''),
           (energy_table, ''laos''), (boundary_table, ''laos'')]
      \<and> country_entries (spatial_cache ?s1) ''laos'' =
          Some \<lparr>payload = result, storedAt = 0, ttl = 3600\<rparr>"
    using get_country_layers_read_through
      [of "''laos''" 0 stocked_system, THEN conjunct2, THEN mp, OF h1]
    unfolding ttl log0
    by (simp add: stocked_system_def laos_payload_def get_wms_url_def get_wfs_url_def)
  then obtain result where
    run: "fst (get_country_layers ''laos'' 0 stocked_system) = Inr result"
    and c: "cl_country result = ''laos''"
    and cl: "cl_climate result = cl_climate laos_payload"
    and gi: "cl_giri result = cl_giri laos_payload"
    and en: "cl_energy result = cl_energy laos_payload"
    and bo: "cl_boundaries result = cl_boundaries laos_payload"
    and log: "query_log (db ?s1) =
       [(climate_table, ''laos''), (giri_table, ''laos''),
        (energy_table, ''laos''), (boundary_table, ''laos'')]"
    and stored: "country_entries (spatial_cache ?s1) ''laos'' =
       Some \<lparr>payload = result, storedAt = 0, ttl = 3600\<rparr>"
    by blast
  from c cl gi en bo have r: "result = laos_payload"
    by (intro country_layers.equality) (simp_all add: laos_payload_def)
  from stored have h2: "cached_country_layers ''laos'' 5 (spatial_cache ?s1) = Some laos_payload"
    by (simp add: cached_country_layers_def cache_get_def r)
  from get_country_layers_read_through [of "''laos''" 5 ?s1 laos_payload] h2
  have hit: "get_country_layers ''laos'' 5 ?s1 = (Inr laos_payload, ?s1)"
    by simp
  from h1 run r log h2 hit show ?thesis
    by simp
qed

section \<open>Properties of the duplicate resolver and the cleanup\<close>

lemma remdups_constant:
  "rs \<noteq> [] \<Longrightarrow> \<forall>r \<in> set rs. f r = i \<Longrightarrow> remdups (map f rs) = [i]"
proof (induction rs)
  case Nil
  then show ?case by simp
next
  case (Cons r rs)
  then show ?case by (cases rs) auto
qed

lemma group_of_all: "\<forall>r \<in> set rs. identity r = i \<Longrightarrow> group_of i rs = rs"
  by (simp add: group_of_def)

lemma sort_key_nonempty: "rs \<noteq> [] \<Longrightarrow> sort_key f rs \<noteq> []"
  by (metis length_0_conv length_sort)

lemma newest_first_nonempty: "rs \<noteq> [] \<Longrightarrow> newest_first rs \<noteq> []"
  by (simp add: newest_first_def sort_key_nonempty)

lemma resolve_single_identity:
  assumes "rs \<noteq> []" and "\<forall>r \<in> set rs. identity r = i"
  shows "resolve_duplicates rs =
           \<lparr>kept = [hd (newest_first rs)], stale = tl (newest_first rs)\<rparr>"
proof -
  have ne: "newest_first rs \<noteq> []"
    using assms(1) by (rule newest_first_nonempty)
  then have "take 1 (newest_first rs) = [hd (newest_first rs)]"
    by (cases "newest_first rs") simp_all
  moreover have "drop 1 (newest_first rs) = tl (newest_first rs)"
    by (simp add: drop_Suc)
  moreover have "remdups (map identity rs) = [i]"
    using assms by (rule remdups_constant)
  moreover have "group_of i rs = rs"
    using assms(2) by (rule group_of_all)
  ultimately show ?thesis
    by (simp add: resolve_duplicates_def Let_def)
qed

lemma newest_first_set: "set (newest_first rs) = set rs"
  by (simp add: newest_first_def)

lemma newest_first_length: "length (newest_first rs) = length rs"
  by (simp add: newest_first_def)

lemma newest_first_distinct: "distinct rs \<Longrightarrow> distinct (newest_first rs)"
  by (simp add: newest_first_def)

lemma sorted_le_last: "sorted xs \<Longrightarrow> x \<in> set xs \<Longrightarrow> x \<le> last xs"
  by (induction xs) auto

lemma hd_newest_first_max:
  assumes "rs \<noteq> []" and "r \<in> set rs"
  shows "recency r \<le> recency (hd (newest_first rs))"
proof -
  let ?s = "sort_key recency rs"
  have ne: "?s \<noteq> []" using assms(1) by (rule sort_key_nonempty)
  have "hd (newest_first rs) = last ?s"
    using ne by (simp add: newest_first_def hd_rev)
  moreover have "recency r \<le> last (map recency ?s)"
    using assms(2) by (intro sorted_le_last) simp_all
  ultimately show ?thesis
    using ne by (simp add: last_map)
qed

lemma recency_le_createdAt: "recency r \<le> recency m \<Longrightarrow> createdAt r \<le> createdAt m"
  by (auto simp: recency_def less_eq_prod_def)

lemma inj_recency: "distinct (map createdAt rs) \<Longrightarrow> inj_on recency (set rs)"
  by (auto simp: inj_on_def recency_def distinct_map)

lemma newest_first_perm:
  assumes "mset rs' = mset rs" and "distinct (map createdAt rs)"
  shows "newest_first rs' = newest_first rs"
proof -
  have "set rs' = set rs" using assms(1) by (rule mset_eq_setD)
  with assms(2) have "inj_on recency (set rs')" by (simp add: inj_recency)
  with assms(1) have "sort_key recency rs' = sort_key recency rs"
    by (rule sort_key_eq_sort_key)
  then show ?thesis by (simp add: newest_first_def)
qed

lemma delete_layer_faults:
  "delete_fault (snd (delete_layer n g)) = delete_fault g"
  by (simp add: delete_layer_def split: option.splits PublishError.splits)

lemma delete_layer_subset:
  "set (registrations (snd (delete_layer n g))) \<subseteq> set (registrations g)"
  by (auto simp: delete_layer_def split: option.splits PublishError.splits)

lemma delete_layer_removed:
  "delete_fault g n = None \<Longrightarrow>
   \<forall>x \<in> set (registrations (snd (delete_layer n g))). externalName x \<noteq> n"
  by (simp add: delete_layer_def)

lemma delete_layer_failure:
  "delete_fault g n = Some e \<Longrightarrow> e \<noteq> NotFound \<Longrightarrow> fst (delete_layer n g) = Inl e"
  by (cases e) (simp_all add: delete_layer_def)

lemma delete_stale_faults:
  "delete_fault (snd (snd (delete_stale rs g))) = delete_fault g"
proof (induction rs arbitrary: g)
  case Nil
  then show ?case by simp
next
  case (Cons r rs)
  show ?case
    using Cons.IH [of "snd (delete_layer (externalName r) g)"]
      delete_layer_faults [of "externalName r" g]
    by (auto split: prod.splits sum.splits)
qed

lemma delete_stale_subset:
  "set (registrations (snd (snd (delete_stale rs g)))) \<subseteq> set (registrations g)"
proof (induction rs arbitrary: g)
  case Nil
  then show ?case by simp
next
  case (Cons r rs)
  show ?case
    using Cons.IH [of "snd (delete_layer (externalName r) g)"]
      delete_layer_subset [of "externalName r" g]
    by (auto split: prod.splits sum.splits)
qed

lemma delete_stale_failures:
  "r \<in> set rs \<Longrightarrow> delete_fault g (externalName r) = Some e \<Longrightarrow> e \<noteq> NotFound \<Longrightarrow>
   (externalName r, e) \<in> set (fst (snd (delete_stale rs g)))"
proof (induction rs arbitrary: g)
  case Nil
  then show ?case by simp
next
  case (Cons a rs)
  show ?case
  proof (cases "r = a")
    case True
    with Cons.prems delete_layer_failure [of g "externalName a" e]
    show ?thesis by (auto split: prod.splits sum.splits)
  next
    case False
    with Cons.prems have "r \<in> set rs" by simp
    moreover have "delete_fault (snd (delete_layer (externalName a) g)) (externalName r) = Some e"
      using Cons.prems(2) by (simp add: delete_layer_faults)
    ultimately have "(externalName r, e) \<in>
        set (fst (snd (delete_stale rs (snd (delete_layer (externalName a) g)))))"
      using Cons.prems(3) by (rule Cons.IH)
    then show ?thesis by (auto split: prod.splits sum.splits)
  qed
qed

lemma delete_stale_removed:
  "r \<in> set rs \<Longrightarrow> delete_fault g (externalName r) = None \<Longrightarrow>
   \<forall>x \<in> set (registrations (snd (snd (delete_stale rs g)))). externalName x \<noteq> externalName r"
proof (induction rs arbitrary: g)
  case Nil
  then show ?case by simp
next
  case (Cons a rs)
  let ?g = "snd (delete_layer (externalName a) g)"
  have step: "snd (snd (delete_stale (a # rs) g)) = snd (snd (delete_stale rs ?g))"
    by (auto split: prod.splits sum.splits)
  show ?case
  proof (cases "r = a")
    case True
    with Cons.prems(2) have "\<forall>x \<in> set (registrations ?g). externalName x \<noteq> externalName r"
      by (simp add: delete_layer_removed)
    with delete_stale_subset [of rs ?g] show ?thesis
      unfolding step by blast
  next
    case False
    with Cons.prems have "r \<in> set rs" by simp
    moreover have "delete_fault ?g (externalName r) = None"
      using Cons.prems(2) by (simp add: delete_layer_faults)
    ultimately show ?thesis
      unfolding step by (rule Cons.IH)
  qed
qed

lemma cleanup_country_faults:
  "delete_fault (snd (cleanup_country res c g)) = delete_fault g"
  using delete_stale_faults [of "filter (in_country c) (stale res)" g]
  by (simp add: cleanup_country_def case_prod_unfold)

lemma cleanup_country_subset:
  "set (registrations (snd (cleanup_country res c g))) \<subseteq> set (registrations g)"
  using delete_stale_subset [of "filter (in_country c) (stale res)" g]
  by (simp add: cleanup_country_def case_prod_unfold)

lemma cleanup_country_failures:
  "r \<in> set (stale res) \<Longrightarrow> in_country c r \<Longrightarrow>
   delete_fault g (externalName r) = Some e \<Longrightarrow> e \<noteq> NotFound \<Longrightarrow>
   (externalName r, e) \<in> set (cr_failures (fst (cleanup_country res c g)))"
  using delete_stale_failures [of r "filter (in_country c) (stale res)" g e]
  by (simp add: cleanup_country_def case_prod_unfold)

lemma cleanup_country_removed:
  "r \<in> set (stale res) \<Longrightarrow> in_country c r \<Longrightarrow> delete_fault g (externalName r) = None \<Longrightarrow>
   \<forall>x \<in> set (registrations (snd (cleanup_country res c g))). externalName x \<noteq> externalName r"
  using delete_stale_removed [of r "filter (in_country c) (stale res)" g]
  by (simp add: cleanup_country_def case_prod_unfold)

lemma cleanup_countries_names:
  "map fst (fst (cleanup_countries res cs g)) = cs"
  by (induction cs arbitrary: g) (simp_all add: case_prod_unfold)

lemma cleanup_countries_faults:
  "delete_fault (snd (cleanup_countries res cs g)) = delete_fault g"
proof (induction cs arbitrary: g)
  case Nil
  then show ?case by simp
next
  case (Cons c cs)
  show ?case
    using Cons.IH [of "snd (cleanup_country res c g)"] cleanup_country_faults [of res c g]
    by (auto split: prod.splits)
qed

lemma cleanup_countries_subset:
  "set (registrations (snd (cleanup_countries res cs g))) \<subseteq> set (registrations g)"
proof (induction cs arbitrary: g)
  case Nil
  then show ?case by simp
next
  case (Cons c cs)
  show ?case
    using Cons.IH [of "snd (cleanup_country res c g)"] cleanup_country_subset [of res c g]
    by (auto split: prod.splits)
qed

lemma cleanup_countries_failures:
  "c \<in> set cs \<Longrightarrow> r \<in> set (stale res) \<Longrightarrow> in_country c r \<Longrightarrow>
   delete_fault g (externalName r) = Some e \<Longrightarrow> e \<noteq> NotFound \<Longrightarrow>
   \<exists>rep. (c, rep) \<in> set (fst (cleanup_countries res cs g))
         \<and> (externalName r, e) \<in> set (cr_failures rep)"
proof (induction cs arbitrary: g)
  case Nil
  then show ?case by simp
next
  case (Cons a cs)
  let ?g = "snd (cleanup_country res a g)"
  have unfold: "fst (cleanup_countries res (a # cs) g) =
      (a, fst (cleanup_country res a g)) # fst (cleanup_countries res cs ?g)"
    by (auto split: prod.splits)
  show ?case
  proof (cases "c = a")
    case True
    with Cons.prems cleanup_country_failures [of r res a g e]
    show ?thesis unfolding unfold by auto
  next
    case False
    with Cons.prems have "c \<in> set cs" by simp
    moreover have "delete_fault ?g (externalName r) = Some e"
      using Cons.prems(4) by (simp add: cleanup_country_faults)
    ultimately have "\<exists>rep. (c, rep) \<in> set (fst (cleanup_countries res cs ?g))
         \<and> (externalName r, e) \<in> set (cr_failures rep)"
      using Cons.prems(2,3,5) by (intro Cons.IH)
    then show ?thesis unfolding unfold by auto
  qed
qed

lemma cleanup_countries_removed:
  "c \<in> set cs \<Longrightarrow> r \<in> set (stale res) \<Longrightarrow> in_country c r \<Longrightarrow>
   delete_fault g (externalName r) = None \<Longrightarrow>
   \<forall>x \<in> set (registrations (snd (cleanup_countries res cs g))). externalName x \<noteq> externalName r"
proof (induction cs arbitrary: g)
  case Nil
  then show ?case by simp
next
  case (Cons a cs)
  let ?g = "snd (cleanup_country res a g)"
  have step: "snd (cleanup_countries res (a # cs) g) = snd (cleanup_countries res cs ?g)"
    by (auto split: prod.splits)
  show ?case
  proof (cases "c = a")
    case True
    with Cons.prems have "\<forall>x \<in> set (registrations ?g). externalName x \<noteq> externalName r"
      by (simp add: cleanup_country_removed)
    with cleanup_countries_subset [of res cs ?g] show ?thesis
      unfolding step by blast
  next
    case False
    with Cons.prems have "c \<in> set cs" by simp
    moreover have "delete_fault ?g (externalName r) = None"
      using Cons.prems(4) by (simp add: cleanup_country_faults)
    ultimately show ?thesis
      unfolding step using Cons.prems(2,3) by (intro Cons.IH)
  qed
qed

lemma stale_subset: "set (stale (resolve_duplicates rs)) \<subseteq> set rs"
proof -
  have "set (drop 1 (newest_first (group_of i rs))) \<subseteq> set rs" for i
    using set_drop_subset [of 1 "newest_first (group_of i rs)"]
    by (auto simp: newest_first_set group_of_def)
  then show ?thesis
    by (auto simp: resolve_duplicates_def Let_def)
qed

lemma stale_of_duplicate_layers:
  "stale (resolve_duplicates duplicate_layers) =
     [registration ''laos_temp_rcp45_t1'' (Climate ''laos'' ''temp'' ''rcp45'') 20240101,
      registration ''bhutan_temp_rcp45_t1'' (Climate ''bhutan'' ''temp'' ''rcp45'') 20240101,
      registration ''nepal_temp_rcp45_t1'' (Climate ''nepal'' ''temp'' ''rcp45'') 20240101]"
  by (simp add: resolve_duplicates_def newest_first_def group_of_def recency_def
      duplicate_layers_def registration_def)

text \<open>
  C7. Given more than one registration, all of one layer identity and with pairwise
  distinct creation times, the resolver keeps exactly one registration, the one created
  most recently, and marks all the others, one fewer than it was given, as stale; the
  verdict is the same for every order in which the registrations are listed.
\<close>

theorem resolver_keeps_most_recent:
  assumes "1 < length rs"
    and "\<forall>r \<in> set rs. identity r = i"
    and "distinct (map createdAt rs)"
    and "mset rs' = mset rs"
  shows "\<exists>m. kept (resolve_duplicates rs) = [m]
           \<and> m \<in> set rs
           \<and> (\<forall>r \<in> set rs. createdAt r \<le> createdAt m)
           \<and> length (stale (resolve_duplicates rs)) = length rs - 1
           \<and> set (stale (resolve_duplicates rs)) = set rs - {m}
           \<and> resolve_duplicates rs' = resolve_duplicates rs"
proof -
  from assms(1) have ne: "rs \<noteq> []" by auto
  define m where "m = hd (newest_first rs)"
  have res: "resolve_duplicates rs = \<lparr>kept = [m], stale = tl (newest_first rs)\<rparr>"
    unfolding m_def using ne assms(2) by (rule resolve_single_identity)
  have nne: "newest_first rs \<noteq> []" using ne by (rule newest_first_nonempty)
  then have split: "newest_first rs = m # tl (newest_first rs)"
    by (simp add: m_def)
  have m_in: "m \<in> set rs"
    using nne newest_first_set [of rs] hd_in_set [OF nne] by (simp add: m_def)
  have recent: "\<forall>r \<in> set rs. createdAt r \<le> createdAt m"
    using hd_newest_first_max [OF ne] recency_le_createdAt by (auto simp: m_def)
  have len: "length (tl (newest_first rs)) = length rs - 1"
    by (simp add: newest_first_length)
  from assms(3) have "distinct rs" by (simp add: distinct_map)
  then have "distinct (newest_first rs)" by (rule newest_first_distinct)
  with split have "m \<notin> set (tl (newest_first rs))"
    by (metis distinct.simps(2))
  moreover from split have "set rs = insert m (set (tl (newest_first rs)))"
    by (metis list.simps(15) newest_first_set)
  ultimately have others: "set (tl (newest_first rs)) = set rs - {m}" by auto
  have ne': "rs' \<noteq> []" using assms(4) ne by auto
  have "set rs' = set rs" using assms(4) by (rule mset_eq_setD)
  with assms(2) have same': "\<forall>r \<in> set rs'. identity r = i" by simp
  have "resolve_duplicates rs' = \<lparr>kept = [hd (newest_first rs')], stale = tl (newest_first rs')\<rparr>"
    using ne' same' by (rule resolve_single_identity)
  also have "newest_first rs' = newest_first rs"
    using assms(4,3) by (rule newest_first_perm)
  finally have perm: "resolve_duplicates rs' = resolve_duplicates rs"
    by (simp add: res m_def)
  from res m_in recent len others perm show ?thesis by simp
qed

theorem resolver_keeps_most_recent_witness:
  "1 < length laos_duplicates
   \<and> map identity laos_duplicates =
       [Climate ''laos'' ''temp'' ''rcp45'', Climate ''laos'' ''temp'' ''rcp45'']
   \<and> map createdAt laos_duplicates = [20240101, 20240201]
   \<and> mset (rev laos_duplicates) = mset laos_duplicates
   \<and> kept (resolve_duplicates laos_duplicates) =
       [registration ''laos_temp_rcp45_t2'' (Climate ''laos'' ''temp'' ''rcp45'') 20240201]
   \<and> length (stale (resolve_duplicates laos_duplicates)) = 1
   \<and> set (stale (resolve_duplicates laos_duplicates)) =
       {registration ''laos_temp_rcp45_t1'' (Climate ''laos'' ''temp'' ''rcp45'') 20240101}
   \<and> resolve_duplicates (rev laos_duplicates) = resolve_duplicates laos_duplicates"
proof -
  let ?t1 = "registration ''laos_temp_rcp45_t1'' (Climate ''laos'' ''temp'' ''rcp45'') 20240101"
  let ?t2 = "registration ''laos_temp_rcp45_t2'' (Climate ''laos'' ''temp'' ''rcp45'') 20240201"
  have rs: "laos_duplicates = [?t1, ?t2]"
    by (simp add: laos_duplicates_def)
  have h1: "1 < length laos_duplicates"
    by (simp add: rs)
  have h2: "\<forall>r \<in> set laos_duplicates. identity r = Climate ''laos'' ''temp'' ''rcp45''"
    by (simp add: rs registration_def)
  have h3: "distinct (map createdAt laos_duplicates)"
    by (simp add: rs registration_def)
  have h4: "mset (rev laos_duplicates) = mset laos_duplicates"
    by simp
  have ids: "map identity laos_duplicates =
       [Climate ''laos'' ''temp'' ''rcp45'', Climate ''laos'' ''temp'' ''rcp45'']"
    and times: "map createdAt laos_duplicates = [20240101, 20240201]"
    by (simp_all add: rs registration_def)
  from resolver_keeps_most_recent [OF h1 h2 h3 h4] obtain m where
    k: "kept (resolve_duplicates laos_duplicates) = [m]"
    and m_in: "m \<in> set laos_duplicates"
    and recent: "\<forall>r \<in> set laos_duplicates. createdAt r \<le> createdAt m"
    and len: "length (stale (resolve_duplicates laos_duplicates)) = length laos_duplicates - 1"
    and others: "set (stale (resolve_duplicates laos_duplicates)) = set laos_duplicates - {m}"
    and perm: "resolve_duplicates (rev laos_duplicates) = resolve_duplicates laos_duplicates"
    by blast
  from recent have "createdAt ?t2 \<le> createdAt m"
    by (simp add: rs)
  with m_in have m: "m = ?t2"
    by (auto simp: rs registration_def)
  have ne: "?t1 \<noteq> ?t2"
    by (simp add: registration_def)
  from others m ne have st: "set (stale (resolve_duplicates laos_duplicates)) = {?t1}"
    by (auto simp: rs)
  from len have l: "length (stale (resolve_duplicates laos_duplicates)) = 1"
    by (simp add: rs)
  from h1 ids times h4 k m l st perm show ?thesis
    by simp
qed

text \<open>
  C3. A cleanup over all countries, started while the map service can list its layers:
  the request is answered with a report and not with an error, whichever deletions fail.
  The report has one entry per country of the listing, in order; a stale layer whose
  deletion fails is listed, with the reason, among the failures of its country; and
  every stale layer whose deletion does not fail is gone afterwards, also in the
  countries that come after a failing one.
\<close>

theorem cleanup_all_reports_failures:
  assumes "list_fault (geoserver s) = None"
  shows "\<exists>resp s'. cleanup_all_layers s = (Inr resp, s')
    \<and> map fst (details resp) = countries_of (registrations (geoserver s))
    \<and> countries_processed resp = length (countries_of (registrations (geoserver s)))
    \<and> (\<forall>r \<in> set (stale (resolve_duplicates (registrations (geoserver s)))). \<forall>e.
          delete_fault (geoserver s) (externalName r) = Some e \<and> e \<noteq> NotFound \<longrightarrow>
          (\<exists>rep. (country_of (identity r), rep) \<in> set (details resp)
                 \<and> (externalName r, e) \<in> set (cr_failures rep)))
    \<and> (\<forall>r \<in> set (stale (resolve_duplicates (registrations (geoserver s)))).
          delete_fault (geoserver s) (externalName r) = None \<longrightarrow>
          (\<forall>x \<in> set (registrations (geoserver s')). externalName x \<noteq> externalName r))"
proof -
  define g where "g = geoserver s"
  define rs where "rs = registrations g"
  define res where "res = resolve_duplicates rs"
  define out where "out = cleanup_countries res (countries_of rs) g"
  define resp where "resp =
    \<lparr>countries_processed = length (fst out),
     total_deleted = sum_list (map (\<lambda>(c, r). cr_deleted r) (fst out)),
     total_kept = sum_list (map (\<lambda>(c, r). cr_kept r) (fst out)),
     details = fst out\<rparr>"
  have run: "cleanup_all_layers s = (Inr resp, s\<lparr>geoserver := snd out\<rparr>)"
    using assms
    by (simp add: cleanup_all_layers_def cleanup_all_duplicate_layers_def list_layers_def
        g_def rs_def res_def out_def resp_def case_prod_unfold)
  have names: "map fst (details resp) = countries_of rs"
    by (simp add: resp_def out_def cleanup_countries_names)
  then have count: "countries_processed resp = length (countries_of rs)"
    by (metis length_map resp_def cleanup_all_response.select_convs(1,4))
  have in_scope: "country_of (identity r) \<in> set (countries_of rs)" if "r \<in> set (stale res)" for r
    using that stale_subset [of rs] by (auto simp: res_def countries_of_def)
  have failures: "\<exists>rep. (country_of (identity r), rep) \<in> set (details resp)
                 \<and> (externalName r, e) \<in> set (cr_failures rep)"
    if "r \<in> set (stale res)" and "delete_fault g (externalName r) = Some e" and "e \<noteq> NotFound"
    for r e
    using cleanup_countries_failures [OF in_scope [OF that(1)] that(1) _ that(2,3)]
    by (simp add: resp_def out_def in_country_def)
  have removed: "\<forall>x \<in> set (registrations (snd out)). externalName x \<noteq> externalName r"
    if "r \<in> set (stale res)" and "delete_fault g (externalName r) = None" for r
    using cleanup_countries_removed [OF in_scope [OF that(1)] that(1) _ that(2)]
    by (simp add: out_def in_country_def)
  from run names count failures removed show ?thesis
    unfolding g_def [symmetric] rs_def [symmetric] res_def [symmetric]
    by (intro exI [of _ resp] exI [of _ "s\<lparr>geoserver := snd out\<rparr>"]) (simp add: g_def rs_def res_def)
qed

theorem cleanup_all_reports_failures_witness:
  "list_fault (geoserver duplicates_system) = None
   \<and> (\<exists>resp s'. cleanup_all_layers duplicates_system = (Inr resp, s')
        \<and> map fst (details resp) = [''laos'', ''bhutan'', ''nepal'']
        \<and> countries_processed resp = 3
        \<and> (\<exists>rep. (''bhutan'', rep) \<in> set (details resp)
               \<and> (''bhutan_temp_rcp45_t1'', Unreachable) \<in> set (cr_failures rep))
        \<and> ''laos_temp_rcp45_t1'' \<notin> set (map externalName (registrations (geoserver s')))
        \<and> ''nepal_temp_rcp45_t1'' \<notin> set (map externalName (registrations (geoserver s'))))"
proof -
  have h: "list_fault (geoserver duplicates_system) = None"
    by (simp add: duplicates_system_def example_system_def)
  have regs: "registrations (geoserver duplicates_system) = duplicate_layers"
    by (simp add: duplicates_system_def)
  have countries: "countries_of duplicate_layers = [''laos'', ''bhutan'', ''nepal'']"
    by (simp add: countries_of_def duplicate_layers_def registration_def)
  have faults: "delete_fault (geoserver duplicates_system) ''bhutan_temp_rcp45_t1'' = Some Unreachable"
    "delete_fault (geoserver duplicates_system) ''laos_temp_rcp45_t1'' = None"
    "delete_fault (geoserver duplicates_system) ''nepal_temp_rcp45_t1'' = None"
    by (simp_all add: duplicates_system_def)
  from cleanup_all_reports_failures [OF h] obtain resp s' where
    run: "cleanup_all_layers duplicates_system = (Inr resp, s')"
    and names: "map fst (details resp) = [''laos'', ''bhutan'', ''nepal'']"
    and count: "countries_processed resp = 3"
    and failing: "\<forall>r \<in> set (stale (resolve_duplicates duplicate_layers)). \<forall>e.
          delete_fault (geoserver duplicates_system) (externalName r) = Some e \<and> e \<noteq> NotFound \<longrightarrow>
          (\<exists>rep. (country_of (identity r), rep) \<in> set (details resp)
                 \<and> (externalName r, e) \<in> set (cr_failures rep))"
    and deleted: "\<forall>r \<in> set (stale (resolve_duplicates duplicate_layers)).
          delete_fault (geoserver duplicates_system) (externalName r) = None \<longrightarrow>
          (\<forall>x \<in> set (registrations (geoserver s')). externalName x \<noteq> externalName r)"
    unfolding regs countries by auto
  from failing faults(1) have b: "\<exists>rep. (''bhutan'', rep) \<in> set (details resp)
               \<and> (''bhutan_temp_rcp45_t1'', Unreachable) \<in> set (cr_failures rep)"
    by (simp add: stale_of_duplicate_layers registration_def)
  from deleted faults(2,3) have d: "\<forall>x \<in> set (registrations (geoserver s')).
              externalName x \<noteq> ''laos_temp_rcp45_t1'' \<and> externalName x \<noteq> ''nepal_temp_rcp45_t1''"
    by (simp add: stale_of_duplicate_layers registration_def)
  then have d1: "''laos_temp_rcp45_t1'' \<notin> set (map externalName (registrations (geoserver s')))"
    and d2: "''nepal_temp_rcp45_t1'' \<notin> set (map externalName (registrations (geoserver s')))"
    by auto
  from h run names count b d1 d2 show ?thesis
    by (intro conjI exI [of _ resp] exI [of _ s']) assumption+
qed

end
